theory Spec2Isabelle
  imports Complex_Main
begin

section \<open>Data model of \<^verbatim>\<open>backend/routes/documents.js\<close>\<close>

text \<open>
  The route file works on three Mongoose models (Document, Transaction, Anomaly), on the
  Cloudinary uploader and on the two functions of the AI service. The models are records
  holding the fields the route file reads and writes; object ids and user ids are natural
  numbers; a date is a timestamp. A JavaScript number is a double; the model takes
  rationals and writes the literals 0.7 and 0.4 of line 265 as 7/10 and 4/10. Comparing
  two doubles is exact, so nothing but the names of the two thresholds is abstracted.
\<close>

text \<open>
  Modelled from the spec: the schema files \<^verbatim>\<open>models/Document.js\<close> and
  \<^verbatim>\<open>models/Anomaly.js\<close> are not among the sources. A document's status is one of the
  three of section 3 of the specification, which are the three strings the route file
  assigns (lines 187, 235, 281); a severity is one of the three that line 265 produces.
\<close>

datatype doc_status = Processing | Processed | Failed

datatype severity = High | Medium | Low

text \<open>A thrown \<^verbatim>\<open>Error\<close>; the file only ever reads its \<^verbatim>\<open>message\<close>.\<close>

datatype error = Error string

fun message :: "error \<Rightarrow> string" where
  "message (Error m) = m"

text \<open>
  \<^verbatim>\<open>document.extractedData\<close> is either the object
  \<^verbatim>\<open>{text, aiProvider, description}\<close> of line 230 or the object
  \<^verbatim>\<open>{error}\<close> of line 282.
\<close>

datatype payload = ExtractedPayload string string string | ErrorPayload string

text \<open>
  Modelled from the spec: the Mongoose schema \<^verbatim>\<open>models/Document.js\<close> is not among the
  sources. The record holds the fields the route file assigns (lines 180 to 188, 225 to
  235, 281 and 282), which are the attributes of the Document of section 3; the fields
  that only the pipeline fills are absent until then.
\<close>

record document =
  d_id :: nat
  d_user :: nat
  d_originalName :: string
  d_fileName :: string
  d_filePath :: string
  d_fileSize :: nat
  d_mimeType :: string
  d_status :: doc_status
  d_merchant :: "string option"
  d_category :: "string option"
  d_amount :: "rat option"
  d_currency :: "string option"
  d_transactionDate :: "nat option"
  d_extractedData :: "payload option"

text \<open>
  Modelled from the spec: \<^verbatim>\<open>services/aiService.js\<close> is not among the sources. The record
  is the object \<^verbatim>\<open>processDocument\<close> resolves to, with the fields the route file reads
  from it (lines 225 to 247); \<^verbatim>\<open>type\<close> may be absent, as section 6 of the specification
  has it.
\<close>

record extracted =
  x_merchant :: string
  x_category :: string
  x_amount :: rat
  x_currency :: string
  x_transactionDate :: nat
  x_extractedText :: string
  x_aiProvider :: string
  x_description :: string
  x_type :: "string option"

text \<open>
  Modelled from the spec: the Mongoose schema \<^verbatim>\<open>models/Transaction.js\<close> is not among the
  sources. The record holds the fields of the constructor call of lines 239 to 250.
\<close>

record transaction =
  t_id :: nat
  t_user :: nat
  t_merchant :: string
  t_amount :: rat
  t_currency :: string
  t_category :: string
  t_type :: string
  t_date :: nat
  t_description :: string
  t_document :: "nat option"
  t_status :: string

text \<open>
  Modelled from the spec: \<^verbatim>\<open>services/aiService.js\<close> is not among the sources. The record
  is the object \<^verbatim>\<open>detectAnomalies\<close> resolves to, when it resolves to one, with the
  fields the route file reads from it (lines 259 to 270).
\<close>

record anomaly_result =
  r_isAnomaly :: bool
  r_riskScore :: rat
  r_reason :: string
  r_recommendation :: string

text \<open>
  Modelled from the spec: the Mongoose schema \<^verbatim>\<open>models/Anomaly.js\<close> is not among the
  sources. The record holds the fields of the constructor call of lines 261 to 273, the
  three entries of \<^verbatim>\<open>metadata\<close> side by side with the others.
\<close>

record anomaly =
  a_id :: nat
  a_user :: nat
  a_transaction :: nat
  a_type :: string
  a_severity :: severity
  a_description :: string
  a_status :: string
  a_riskScore :: rat
  a_recommendation :: string
  a_aiProvider :: string

text \<open>
  The two fields of \<^verbatim>\<open>req.file\<close> that the constructor call of line 180 reads, and what
  Cloudinary answers to an upload.
\<close>

record upload_file =
  f_originalname :: string
  f_mimetype :: string

record cloudinary_result =
  c_public_id :: string
  c_secure_url :: string
  c_bytes :: nat

text \<open>What a route sends: the HTTP status and the JSON body.\<close>

record response =
  res_status :: nat
  res_success :: bool
  res_message :: string
  res_data :: "document option"

section \<open>The stores and the collaborators\<close>

text \<open>
  Every completed call on a collaborator that a property of the pipeline speaks about is
  appended to a journal: the writes that the stores accepted, the call of the scorer with
  its two arguments, and the blob and record deletions of the delete route.
\<close>

datatype event =
    DocumentSaved document
  | TransactionSaved transaction
  | AnomalySaved anomaly
  | ScorerCalled transaction "transaction list"
  | BlobDestroyed string string
  | DocumentDeleted nat

text \<open>
  The collections are lists in the order the store returns them on a query without a sort,
  taken to be the order of insertion: an insert appends, an update replaces in place.
\<close>

record world =
  documents :: "document list"
  transactions :: "transaction list"
  anomalies :: "anomaly list"
  blobs :: "string list"
  journal :: "event list"

text \<open>
  What the surroundings do during one request. The two functions of the AI service, which
  is not among the sources, are parameters: they raise (\<open>Inl\<close>) or resolve (\<open>Inr\<close>). So
  are the configuration, the ids that the three constructors draw, and, for every call
  on a store or on Cloudinary's \<^verbatim>\<open>destroy\<close>, whether it raises (\<open>Some e\<close>) or goes through
  (\<open>None\<close>).
\<close>

record env =
  GEMINI_API_KEY :: bool
  processDocument :: "string \<Rightarrow> string \<Rightarrow> string \<Rightarrow> error + extracted"
  detectAnomalies :: "transaction \<Rightarrow> transaction list \<Rightarrow> error + anomaly_result option"
  new_document_id :: nat
  new_transaction_id :: nat
  new_anomaly_id :: nat
  document_save_fault :: "document \<Rightarrow> error option"
  transaction_save_fault :: "transaction \<Rightarrow> error option"
  transaction_find_fault :: "nat \<Rightarrow> error option"
  anomaly_save_fault :: "anomaly \<Rightarrow> error option"
  document_findOne_fault :: "nat \<Rightarrow> nat \<Rightarrow> error option"
  document_deleteOne_fault :: "document \<Rightarrow> error option"
  destroy_fault :: "string \<Rightarrow> string \<Rightarrow> error option"

text \<open>\<^verbatim>\<open>document.save()\<close>: an insert for a new id, an update in place otherwise.\<close>

definition store_document :: "document \<Rightarrow> document list \<Rightarrow> document list" where
  "store_document d ds =
     (if d_id d \<in> set (map d_id ds)
      then map (\<lambda>x. if d_id x = d_id d then d else x) ds
      else ds @ [d])"

definition document_save :: "env \<Rightarrow> document \<Rightarrow> world \<Rightarrow> error + world" where
  "document_save en d w =
     (case document_save_fault en d of
        Some e \<Rightarrow> Inl e
      | None \<Rightarrow> Inr (w\<lparr>documents := store_document d (documents w),
                      journal := journal w @ [DocumentSaved d]\<rparr>))"

text \<open>\<^verbatim>\<open>transaction.save()\<close> and \<^verbatim>\<open>anomaly.save()\<close> on freshly constructed objects: inserts.\<close>

definition transaction_save :: "env \<Rightarrow> transaction \<Rightarrow> world \<Rightarrow> error + world" where
  "transaction_save en t w =
     (case transaction_save_fault en t of
        Some e \<Rightarrow> Inl e
      | None \<Rightarrow> Inr (w\<lparr>transactions := transactions w @ [t],
                      journal := journal w @ [TransactionSaved t]\<rparr>))"

definition anomaly_save :: "env \<Rightarrow> anomaly \<Rightarrow> world \<Rightarrow> error + world" where
  "anomaly_save en a w =
     (case anomaly_save_fault en a of
        Some e \<Rightarrow> Inl e
      | None \<Rightarrow> Inr (w\<lparr>anomalies := anomalies w @ [a],
                      journal := journal w @ [AnomalySaved a]\<rparr>))"

text \<open>\<^verbatim>\<open>Transaction.find({ user: userId }).limit(100)\<close> (line 254).\<close>

definition transaction_find_limit :: "env \<Rightarrow> nat \<Rightarrow> world \<Rightarrow> error + transaction list" where
  "transaction_find_limit en userId w =
     (case transaction_find_fault en userId of
        Some e \<Rightarrow> Inl e
      | None \<Rightarrow> Inr (take 100 (filter (\<lambda>t. t_user t = userId) (transactions w))))"

section \<open>The background pipeline \<^verbatim>\<open>processDocumentWithAI\<close>\<close>

text \<open>Line 215: Gemini when its key is configured, OpenAI otherwise.\<close>

definition aiProvider_of :: "env \<Rightarrow> string" where
  "aiProvider_of en = (if GEMINI_API_KEY en then ''gemini'' else ''openai'')"

text \<open>Lines 225 to 235: the extracted fields are copied onto the document object.\<close>

definition finalize_document :: "document \<Rightarrow> extracted \<Rightarrow> document" where
  "finalize_document d x =
     d\<lparr>d_merchant := Some (x_merchant x),
       d_category := Some (x_category x),
       d_amount := Some (x_amount x),
       d_currency := Some (x_currency x),
       d_transactionDate := Some (x_transactionDate x),
       d_extractedData :=
         Some (ExtractedPayload (x_extractedText x) (x_aiProvider x) (x_description x)),
       d_status := Processed\<rparr>"

text \<open>
  Line 245, \<^verbatim>\<open>extractedData.type || 'expense'\<close>: an absent type and the empty string are
  both falsy.
\<close>

definition type_or_expense :: "string option \<Rightarrow> string" where
  "type_or_expense ty =
     (case ty of None \<Rightarrow> ''expense'' | Some s \<Rightarrow> (if s = [] then ''expense'' else s))"

text \<open>Lines 239 to 250.\<close>

definition new_transaction :: "env \<Rightarrow> nat \<Rightarrow> extracted \<Rightarrow> document \<Rightarrow> transaction" where
  "new_transaction en userId x d =
     \<lparr>t_id = new_transaction_id en,
      t_user = userId,
      t_merchant = x_merchant x,
      t_amount = x_amount x,
      t_currency = x_currency x,
      t_category = x_category x,
      t_type = type_or_expense (x_type x),
      t_date = x_transactionDate x,
      t_description = x_description x,
      t_document = Some (d_id d),
      t_status = ''completed''\<rparr>"

text \<open>Line 265: the nested conditional on \<^verbatim>\<open>anomalyResult.riskScore\<close>.\<close>

definition severity_of :: "rat \<Rightarrow> severity" where
  "severity_of riskScore =
     (if riskScore > 7 / 10 then High else if riskScore > 4 / 10 then Medium else Low)"

text \<open>Lines 261 to 273.\<close>

definition new_anomaly :: "env \<Rightarrow> nat \<Rightarrow> transaction \<Rightarrow> anomaly_result \<Rightarrow> anomaly" where
  "new_anomaly en userId t r =
     \<lparr>a_id = new_anomaly_id en,
      a_user = userId,
      a_transaction = t_id t,
      a_type = ''unusual_amount'',
      a_severity = severity_of (r_riskScore r),
      a_description = r_reason r,
      a_status = ''new'',
      a_riskScore = r_riskScore r,
      a_recommendation = r_recommendation r,
      a_aiProvider = aiProvider_of en\<rparr>"

text \<open>
  Lines 254 to 276, entered once the transaction is saved: the history query, the call
  of the scorer, and the conditional anomaly. The result is the error thrown, if any,
  and the world as the calls left it.
\<close>

definition score_transaction :: "env \<Rightarrow> nat \<Rightarrow> transaction \<Rightarrow> world \<Rightarrow> error option \<times> world" where
  "score_transaction en userId t w =
     (case transaction_find_limit en userId w of
        Inl e \<Rightarrow> (Some e, w)
      | Inr userTransactions \<Rightarrow>
          (let w1 = w\<lparr>journal := journal w @ [ScorerCalled t userTransactions]\<rparr> in
           case detectAnomalies en t userTransactions of
             Inl e \<Rightarrow> (Some e, w1)
           | Inr None \<Rightarrow> (None, w1)
           | Inr (Some anomalyResult) \<Rightarrow>
               (if r_isAnomaly anomalyResult
                then (case anomaly_save en (new_anomaly en userId t anomalyResult) w1 of
                        Inl e \<Rightarrow> (Some e, w1)
                      | Inr w2 \<Rightarrow> (None, w2))
                else (None, w1))))"

text \<open>
  The \<^verbatim>\<open>try\<close> block, lines 214 to 278. It returns the error that left the block, if one
  did, the document object as the block mutated it, and the world.
\<close>

definition try_block :: "env \<Rightarrow> document \<Rightarrow> nat \<Rightarrow> world \<Rightarrow> error option \<times> document \<times> world" where
  "try_block en d userId w =
     (case processDocument en (d_filePath d) (d_mimeType d) (aiProvider_of en) of
        Inl e \<Rightarrow> (Some e, d, w)
      | Inr extractedData \<Rightarrow>
          (let d1 = finalize_document d extractedData in
           case document_save en d1 w of
             Inl e \<Rightarrow> (Some e, d1, w)
           | Inr w1 \<Rightarrow>
               (let t = new_transaction en userId extractedData d1 in
                case transaction_save en t w1 of
                  Inl e \<Rightarrow> (Some e, d1, w1)
                | Inr w2 \<Rightarrow>
                    (case score_transaction en userId t w2 of
                       (r, w3) \<Rightarrow> (r, d1, w3)))))"

text \<open>
  The \<^verbatim>\<open>catch\<close> block, lines 279 to 284. Its own \<^verbatim>\<open>document.save()\<close> is not guarded: when
  it raises, the promise of the function is rejected with that error.
\<close>

definition catch_block :: "env \<Rightarrow> error \<Rightarrow> document \<Rightarrow> world \<Rightarrow> error option \<times> document \<times> world" where
  "catch_block en e d w =
     (let d1 = d\<lparr>d_status := Failed, d_extractedData := Some (ErrorPayload (message e))\<rparr> in
      case document_save en d1 w of
        Inl e1 \<Rightarrow> (Some e1, d1, w)
      | Inr w1 \<Rightarrow> (None, d1, w1))"

text \<open>
  The whole function: \<open>None\<close> in the first component is a resolved promise, \<open>Some e\<close> a
  rejected one.
\<close>

definition processDocumentWithAI :: "env \<Rightarrow> document \<Rightarrow> nat \<Rightarrow> world \<Rightarrow> error option \<times> document \<times> world" where
  "processDocumentWithAI en d userId w =
     (case try_block en d userId w of
        (None, d1, w1) \<Rightarrow> (None, d1, w1)
      | (Some e, d1, w1) \<Rightarrow> catch_block en e d1 w1)"

section \<open>The call site in the upload route, \<^verbatim>\<open>router.post('/')\<close>\<close>

text \<open>
  Of the upload route the model keeps the two places the pipeline depends on. The first
  is the constructor call of lines 180 to 188, which makes the document the pipeline is
  started on, in status \<open>Processing\<close>.
\<close>

definition new_document :: "env \<Rightarrow> nat \<Rightarrow> upload_file \<Rightarrow> cloudinary_result \<Rightarrow> document" where
  "new_document en userId f cloudinaryResult =
     \<lparr>d_id = new_document_id en,
      d_user = userId,
      d_originalName = f_originalname f,
      d_fileName = c_public_id cloudinaryResult,
      d_filePath = c_secure_url cloudinaryResult,
      d_fileSize = c_bytes cloudinaryResult,
      d_mimeType = f_mimetype f,
      d_status = Processing,
      d_merchant = None, d_category = None, d_amount = None,
      d_currency = None, d_transactionDate = None,
      d_extractedData = None\<rparr>"

text \<open>
  The second is the call of lines 193 to 195,
  \<^verbatim>\<open>processDocumentWithAI(document, req.userId).catch(err => { console.error(...) })\<close>.
  The function is \<^verbatim>\<open>async\<close>, so the call itself returns a promise and never throws; the
  \<^verbatim>\<open>.catch\<close> turns a rejection into a resolved promise after logging it. What the route
  holds is therefore a promise that resolves whatever the run did; the document object
  and the world are as the run left them.
\<close>

definition detached_call :: "env \<Rightarrow> document \<Rightarrow> nat \<Rightarrow> world \<Rightarrow> error option \<times> document \<times> world" where
  "detached_call en d userId w =
     (case processDocumentWithAI en d userId w of
        (None, d1, w1) \<Rightarrow> (None, d1, w1)
      | (Some err, d1, w1) \<Rightarrow> (None, d1, w1))"

section \<open>The delete route, \<^verbatim>\<open>router.delete('/:id')\<close>\<close>

text \<open>\<^verbatim>\<open>String.prototype.includes\<close>: the second string occurs somewhere in the first.\<close>

fun str_includes :: "string \<Rightarrow> string \<Rightarrow> bool" where
  "str_includes [] sub = (sub = [])"
| "str_includes (c # cs) sub = (take (length sub) (c # cs) = sub \<or> str_includes cs sub)"

text \<open>\<^verbatim>\<open>Document.findOne({ _id, user })\<close> (line 290).\<close>

definition document_findOne :: "env \<Rightarrow> nat \<Rightarrow> nat \<Rightarrow> world \<Rightarrow> error + document option" where
  "document_findOne en ident userId w =
     (case document_findOne_fault en ident userId of
        Some e \<Rightarrow> Inl e
      | None \<Rightarrow> Inr (find (\<lambda>d. d_id d = ident \<and> d_user d = userId) (documents w)))"

text \<open>\<^verbatim>\<open>document.deleteOne()\<close> (line 315).\<close>

definition document_deleteOne :: "env \<Rightarrow> document \<Rightarrow> world \<Rightarrow> error + world" where
  "document_deleteOne en d w =
     (case document_deleteOne_fault en d of
        Some e \<Rightarrow> Inl e
      | None \<Rightarrow> Inr (w\<lparr>documents := filter (\<lambda>x. d_id x \<noteq> d_id d) (documents w),
                      journal := journal w @ [DocumentDeleted (d_id d)]\<rparr>))"

text \<open>Line 305.\<close>

definition resourceType_of :: "string \<Rightarrow> string" where
  "resourceType_of mimeType =
     (if mimeType = ''application/pdf'' \<or> str_includes mimeType ''application''
      then ''raw'' else ''image'')"

text \<open>
  Lines 303 to 313: the guarded call of \<^verbatim>\<open>cloudinary.uploader.destroy\<close>; the inner
  \<^verbatim>\<open>catch\<close> logs and goes on.
\<close>

definition destroy_blob :: "env \<Rightarrow> document \<Rightarrow> world \<Rightarrow> world" where
  "destroy_blob en d w =
     (if d_fileName d \<noteq> []
      then (case destroy_fault en (d_fileName d) (resourceType_of (d_mimeType d)) of
              Some cloudinaryError \<Rightarrow> w
            | None \<Rightarrow>
                w\<lparr>blobs := removeAll (d_fileName d) (blobs w),
                  journal := journal w @
                    [BlobDestroyed (d_fileName d) (resourceType_of (d_mimeType d))]\<rparr>)
      else w)"

text \<open>Lines 288 to 327.\<close>

definition delete_handler :: "env \<Rightarrow> nat \<Rightarrow> nat \<Rightarrow> world \<Rightarrow> response \<times> world" where
  "delete_handler en ident userId w =
     (case document_findOne en ident userId w of
        Inl e \<Rightarrow>
          (\<lparr>res_status = 500, res_success = False,
            res_message = message e, res_data = None\<rparr>, w)
      | Inr None \<Rightarrow>
          (\<lparr>res_status = 404, res_success = False,
            res_message = ''Document not found'', res_data = None\<rparr>, w)
      | Inr (Some d) \<Rightarrow>
          (let w1 = destroy_blob en d w in
           case document_deleteOne en d w1 of
             Inl e \<Rightarrow>
               (\<lparr>res_status = 500, res_success = False,
                 res_message = message e, res_data = None\<rparr>, w1)
           | Inr w2 \<Rightarrow>
               (\<lparr>res_status = 200, res_success = True,
                 res_message = ''Document deleted successfully'', res_data = None\<rparr>, w2)))"

section \<open>Observing a run\<close>

text \<open>The three components of what \<open>processDocumentWithAI\<close> returns.\<close>

definition promise :: "error option \<times> document \<times> world \<Rightarrow> error option" where
  "promise run = fst run"

definition final_document :: "error option \<times> document \<times> world \<Rightarrow> document" where
  "final_document run = fst (snd run)"

definition final_world :: "error option \<times> document \<times> world \<Rightarrow> world" where
  "final_world run = snd (snd run)"

text \<open>The journal entries a run added to the world it started from.\<close>

definition new_events :: "world \<Rightarrow> world \<Rightarrow> event list" where
  "new_events w w1 = drop (length (journal w)) (journal w1)"

text \<open>The statuses written to the record of one document, and the transactions written.\<close>

fun status_writes :: "nat \<Rightarrow> event list \<Rightarrow> doc_status list" where
  "status_writes ident [] = []"
| "status_writes ident (DocumentSaved d # evs) =
     (if d_id d = ident then d_status d # status_writes ident evs
      else status_writes ident evs)"
| "status_writes ident (ev # evs) = status_writes ident evs"

fun transaction_writes :: "event list \<Rightarrow> transaction list" where
  "transaction_writes [] = []"
| "transaction_writes (TransactionSaved t # evs) = t # transaction_writes evs"
| "transaction_writes (ev # evs) = transaction_writes evs"

fun scorer_calls :: "event list \<Rightarrow> (transaction \<times> transaction list) list" where
  "scorer_calls [] = []"
| "scorer_calls (ScorerCalled t ts # evs) = (t, ts) # scorer_calls evs"
| "scorer_calls (ev # evs) = scorer_calls evs"

text \<open>The record the store holds under a document id.\<close>

definition stored_document :: "world \<Rightarrow> nat \<Rightarrow> document option" where
  "stored_document w ident = find (\<lambda>x. d_id x = ident) (documents w)"

text \<open>
  The stages of the \<^verbatim>\<open>try\<close> block that call a collaborator, and the error each can
  raise: one rule per \<^verbatim>\<open>await\<close> of lines 218 to 275, with the arguments the code passes
  there. Choosing the provider (line 215) reads a configuration value and cannot raise.
\<close>

datatype stage =
  Extraction | DocumentFinalize | TransactionCreation | HistoryFetch | Scoring
  | AnomalyPersistence

inductive raised :: "env \<Rightarrow> document \<Rightarrow> nat \<Rightarrow> world \<Rightarrow> stage \<Rightarrow> error \<Rightarrow> bool"
  for en :: env and d :: document and userId :: nat and w :: world
where
  extraction:
    "processDocument en (d_filePath d) (d_mimeType d) (aiProvider_of en) = Inl e
     \<Longrightarrow> raised en d userId w Extraction e"
| document_finalize:
    "processDocument en (d_filePath d) (d_mimeType d) (aiProvider_of en) = Inr x
     \<Longrightarrow> document_save_fault en (finalize_document d x) = Some e
     \<Longrightarrow> raised en d userId w DocumentFinalize e"
| transaction_creation:
    "processDocument en (d_filePath d) (d_mimeType d) (aiProvider_of en) = Inr x
     \<Longrightarrow> document_save_fault en (finalize_document d x) = None
     \<Longrightarrow> transaction_save_fault en (new_transaction en userId x (finalize_document d x)) = Some e
     \<Longrightarrow> raised en d userId w TransactionCreation e"
| history_fetch:
    "processDocument en (d_filePath d) (d_mimeType d) (aiProvider_of en) = Inr x
     \<Longrightarrow> document_save_fault en (finalize_document d x) = None
     \<Longrightarrow> transaction_save_fault en (new_transaction en userId x (finalize_document d x)) = None
     \<Longrightarrow> transaction_find_fault en userId = Some e
     \<Longrightarrow> raised en d userId w HistoryFetch e"
| scoring:
    "processDocument en (d_filePath d) (d_mimeType d) (aiProvider_of en) = Inr x
     \<Longrightarrow> document_save_fault en (finalize_document d x) = None
     \<Longrightarrow> t = new_transaction en userId x (finalize_document d x)
     \<Longrightarrow> transaction_save_fault en t = None
     \<Longrightarrow> transaction_find_fault en userId = None
     \<Longrightarrow> detectAnomalies en t
           (take 100 (filter (\<lambda>y. t_user y = userId) (transactions w @ [t]))) = Inl e
     \<Longrightarrow> raised en d userId w Scoring e"
| anomaly_persistence:
    "processDocument en (d_filePath d) (d_mimeType d) (aiProvider_of en) = Inr x
     \<Longrightarrow> document_save_fault en (finalize_document d x) = None
     \<Longrightarrow> t = new_transaction en userId x (finalize_document d x)
     \<Longrightarrow> transaction_save_fault en t = None
     \<Longrightarrow> transaction_find_fault en userId = None
     \<Longrightarrow> detectAnomalies en t
           (take 100 (filter (\<lambda>y. t_user y = userId) (transactions w @ [t]))) = Inr (Some res)
     \<Longrightarrow> r_isAnomaly res
     \<Longrightarrow> anomaly_save_fault en (new_anomaly en userId t res) = Some e
     \<Longrightarrow> raised en d userId w AnomalyPersistence e"

code_pred raised .

text \<open>
  The runs in which no stage raises: the provider extracts \<open>x\<close>, both saves and the
  history query go through, and the scorer resolves to \<open>res\<close>, which either is absent,
  or says no, or says yes and then the anomaly is saved.
\<close>

inductive completed :: "env \<Rightarrow> document \<Rightarrow> nat \<Rightarrow> world \<Rightarrow> extracted \<Rightarrow> anomaly_result option \<Rightarrow> bool"
  for en :: env and d :: document and userId :: nat and w :: world
where
  no_result:
    "processDocument en (d_filePath d) (d_mimeType d) (aiProvider_of en) = Inr x
     \<Longrightarrow> document_save_fault en (finalize_document d x) = None
     \<Longrightarrow> t = new_transaction en userId x (finalize_document d x)
     \<Longrightarrow> transaction_save_fault en t = None
     \<Longrightarrow> transaction_find_fault en userId = None
     \<Longrightarrow> detectAnomalies en t
           (take 100 (filter (\<lambda>y. t_user y = userId) (transactions w @ [t]))) = Inr None
     \<Longrightarrow> completed en d userId w x None"
| negative:
    "processDocument en (d_filePath d) (d_mimeType d) (aiProvider_of en) = Inr x
     \<Longrightarrow> document_save_fault en (finalize_document d x) = None
     \<Longrightarrow> t = new_transaction en userId x (finalize_document d x)
     \<Longrightarrow> transaction_save_fault en t = None
     \<Longrightarrow> transaction_find_fault en userId = None
     \<Longrightarrow> detectAnomalies en t
           (take 100 (filter (\<lambda>y. t_user y = userId) (transactions w @ [t]))) = Inr (Some res)
     \<Longrightarrow> \<not> r_isAnomaly res
     \<Longrightarrow> completed en d userId w x (Some res)"
| flagged:
    "processDocument en (d_filePath d) (d_mimeType d) (aiProvider_of en) = Inr x
     \<Longrightarrow> document_save_fault en (finalize_document d x) = None
     \<Longrightarrow> t = new_transaction en userId x (finalize_document d x)
     \<Longrightarrow> transaction_save_fault en t = None
     \<Longrightarrow> transaction_find_fault en userId = None
     \<Longrightarrow> detectAnomalies en t
           (take 100 (filter (\<lambda>y. t_user y = userId) (transactions w @ [t]))) = Inr (Some res)
     \<Longrightarrow> r_isAnomaly res
     \<Longrightarrow> anomaly_save_fault en (new_anomaly en userId t res) = None
     \<Longrightarrow> completed en d userId w x (Some res)"

code_pred completed .

section \<open>Example runs\<close>

text \<open>
  One upload and the surroundings it meets: a PNG receipt of user 1, stored as document 7,
  read by the extraction provider as a purchase of 42.50 USD at Acme Co, with every store
  answering and the scorer returning no result.
\<close>

definition receipt_file :: upload_file where
  "receipt_file = \<lparr>f_originalname = ''receipt.png'', f_mimetype = ''image/png''\<rparr>"

definition receipt_blob :: cloudinary_result where
  "receipt_blob = \<lparr>c_public_id = ''financial_docs/r7'', c_secure_url = ''https://res.cloudinary.com/demo/r7.png'', c_bytes = 4\<rparr>"

definition receipt :: extracted where
  "receipt = \<lparr>x_merchant = ''Acme Co'', x_category = ''Office'', x_amount = 85 / 2,
     x_currency = ''USD'', x_transactionDate = 20240115, x_extractedText = ''ACME CO 42.50'',
     x_aiProvider = ''gemini'', x_description = ''Office supplies'', x_type = None\<rparr>"

definition quiet_env :: env where
  "quiet_env = \<lparr>GEMINI_API_KEY = True,
     processDocument = (\<lambda>filePath mimeType aiProvider. Inr receipt),
     detectAnomalies = (\<lambda>t ts. Inr None),
     new_document_id = 7, new_transaction_id = 8, new_anomaly_id = 9,
     document_save_fault = (\<lambda>d. None),
     transaction_save_fault = (\<lambda>t. None),
     transaction_find_fault = (\<lambda>u. None),
     anomaly_save_fault = (\<lambda>a. None),
     document_findOne_fault = (\<lambda>i u. None),
     document_deleteOne_fault = (\<lambda>d. None),
     destroy_fault = (\<lambda>i k. None)\<rparr>"

definition receipt_doc :: document where
  "receipt_doc = new_document quiet_env 1 receipt_file receipt_blob"

definition uploaded_world :: world where
  "uploaded_world = \<lparr>documents = [receipt_doc], transactions = [], anomalies = [],
     blobs = [''financial_docs/r7''], journal = [DocumentSaved receipt_doc]\<rparr>"

text \<open>The same surroundings with one collaborator failing.\<close>

definition extraction_down_env :: env where
  "extraction_down_env =
     quiet_env\<lparr>processDocument := (\<lambda>filePath mimeType aiProvider. Inl (Error ''provider timeout''))\<rparr>"

definition scorer_down_env :: env where
  "scorer_down_env = quiet_env\<lparr>detectAnomalies := (\<lambda>t ts. Inl (Error ''scorer unavailable''))\<rparr>"

definition transaction_store_down_env :: env where
  "transaction_store_down_env =
     quiet_env\<lparr>transaction_save_fault := (\<lambda>t. Some (Error ''write failed''))\<rparr>"

text \<open>
  A document store that refuses every write, met by a failing provider; and one that
  accepts the processed document but refuses the failed one, met by a failing scorer.
\<close>

definition store_down_env :: env where
  "store_down_env =
     extraction_down_env\<lparr>document_save_fault := (\<lambda>d. Some (Error ''store unavailable''))\<rparr>"

definition failed_rejected_env :: env where
  "failed_rejected_env =
     scorer_down_env\<lparr>document_save_fault :=
       (\<lambda>d. if d_status d = Failed then Some (Error ''store unavailable'') else None)\<rparr>"

text \<open>A document store that refuses the processed document and accepts the failed one.\<close>

definition finalize_rejected_env :: env where
  "finalize_rejected_env =
     quiet_env\<lparr>document_save_fault :=
       (\<lambda>d. if d_status d = Processed then Some (Error ''validation failed'') else None)\<rparr>"

text \<open>A scorer that flags the transaction, with the anomaly store answering or not.\<close>

definition suspicious :: anomaly_result where
  "suspicious = \<lparr>r_isAnomaly = True, r_riskScore = 17 / 20,
     r_reason = ''amount far above the usual'', r_recommendation = ''review''\<rparr>"

definition alert_env :: env where
  "alert_env = quiet_env\<lparr>detectAnomalies := (\<lambda>t ts. Inr (Some suspicious))\<rparr>"

definition anomaly_store_down_env :: env where
  "anomaly_store_down_env =
     alert_env\<lparr>anomaly_save_fault := (\<lambda>a. Some (Error ''write failed''))\<rparr>"

text \<open>An extraction provider that names the type of the transaction.\<close>

definition income_env :: env where
  "income_env =
     quiet_env\<lparr>processDocument :=
       (\<lambda>filePath mimeType aiProvider. Inr (receipt\<lparr>x_type := Some ''income''\<rparr>))\<rparr>"

text \<open>Cloudinary refusing to delete.\<close>

definition blob_down_env :: env where
  "blob_down_env = quiet_env\<lparr>destroy_fault := (\<lambda>i k. Some (Error ''cloudinary unavailable''))\<rparr>"

text \<open>
  A user with a past: 101 transactions of user 1 entered by hand, in the order they were
  created, transaction \<open>i\<close> dated day \<open>i\<close>.
\<close>

definition old_transaction :: "nat \<Rightarrow> transaction" where
  "old_transaction i =
     \<lparr>t_id = 100 + i, t_user = 1, t_merchant = ''Corner Shop'', t_amount = 5,
      t_currency = ''USD'', t_category = ''Food'', t_type = ''expense'', t_date = i,
      t_description = ''lunch'', t_document = None, t_status = ''completed''\<rparr>"

definition busy_world :: world where
  "busy_world = uploaded_world\<lparr>transactions := map old_transaction [0..<101]\<rparr>"

text \<open>The transaction the pipeline builds from the example receipt.\<close>

definition receipt_transaction :: transaction where
  "receipt_transaction = new_transaction quiet_env 1 receipt (finalize_document receipt_doc receipt)"

section \<open>The history window as the specification words it\<close>

text \<open>
  Following the specification's words, "the user's most recent Transactions", up to a
  bound: the last \<open>n\<close> of the user's transactions in the order of creation.
\<close>

definition most_recent_of_user :: "nat \<Rightarrow> nat \<Rightarrow> transaction list \<Rightarrow> transaction list" where
  "most_recent_of_user n userId ts =
     (let own = filter (\<lambda>t. t_user t = userId) ts in drop (length own - n) own)"

section \<open>Unfolding the model\<close>

lemmas example_defs = receipt_file_def receipt_blob_def receipt_def quiet_env_def
  receipt_doc_def uploaded_world_def new_document_def receipt_transaction_def

lemmas env_defs = extraction_down_env_def scorer_down_env_def transaction_store_down_env_def
  finalize_rejected_env_def suspicious_def alert_env_def anomaly_store_down_env_def income_env_def
  blob_down_env_def store_down_env_def failed_rejected_env_def

lemmas store_defs = document_save_def transaction_save_def anomaly_save_def
  transaction_find_limit_def

lemmas pipe_defs = processDocumentWithAI_def try_block_def catch_block_def score_transaction_def

lemmas obs_defs = promise_def final_document_def final_world_def new_events_def

lemmas build_defs = finalize_document_def new_transaction_def new_anomaly_def aiProvider_of_def
  type_or_expense_def

section \<open>The two ways a run can go\<close>

text \<open>
  An error of any stage leaves the \<^verbatim>\<open>try\<close> block; a run in which no stage raises leaves it
  without one; and every run is of one of the two kinds.
\<close>

lemma raised_leaves_try_block:
  "raised en d userId w s e \<Longrightarrow> fst (try_block en d userId w) = Some e"
  by (induction rule: raised.induct)
     (simp_all add: try_block_def score_transaction_def store_defs Let_def)

lemma completed_leaves_try_block:
  "completed en d userId w x res \<Longrightarrow> fst (try_block en d userId w) = None"
  by (induction rule: completed.induct)
     (simp_all add: try_block_def score_transaction_def store_defs Let_def)

lemma try_block_cases:
  "(\<exists>s e. raised en d userId w s e) \<or> (\<exists>x res. completed en d userId w x res)"
proof (cases "processDocument en (d_filePath d) (d_mimeType d) (aiProvider_of en)")
  case (Inl e)
  then show ?thesis by (blast intro: raised.extraction)
next
  case (Inr x)
  let ?d1 = "finalize_document d x"
  let ?t = "new_transaction en userId x ?d1"
  let ?win = "take 100 (filter (\<lambda>y. t_user y = userId) (transactions w @ [?t]))"
  show ?thesis
  proof (cases "document_save_fault en ?d1")
    case (Some e)
    with Inr show ?thesis by (blast intro: raised.document_finalize)
  next
    case dnone: None
    show ?thesis
    proof (cases "transaction_save_fault en ?t")
      case (Some e)
      with Inr dnone show ?thesis by (blast intro: raised.transaction_creation)
    next
      case tnone: None
      show ?thesis
      proof (cases "transaction_find_fault en userId")
        case (Some e)
        with Inr dnone tnone show ?thesis by (blast intro: raised.history_fetch)
      next
        case fnone: None
        show ?thesis
        proof (cases "detectAnomalies en ?t ?win")
          case (Inl e)
          with Inr dnone tnone fnone show ?thesis
            by (blast intro: raised.scoring [OF _ _ refl])
        next
          case ans: (Inr res)
          show ?thesis
          proof (cases res)
            case None
            with Inr dnone tnone fnone ans show ?thesis
              by (blast intro: completed.no_result [OF _ _ refl])
          next
            case (Some r)
            show ?thesis
            proof (cases "r_isAnomaly r")
              case False
              with Inr dnone tnone fnone ans Some show ?thesis
                by (blast intro: completed.negative [OF _ _ refl])
            next
              case True
              show ?thesis
              proof (cases "anomaly_save_fault en (new_anomaly en userId ?t r)")
                case None
                with Inr dnone tnone fnone ans Some True show ?thesis
                  by (blast intro: completed.flagged [OF _ _ refl])
              next
                case (Some e)
                with Inr dnone tnone fnone ans \<open>res = Some r\<close> True show ?thesis
                  by (blast intro: raised.anomaly_persistence [OF _ _ refl])
              qed
            qed
          qed
        qed
      qed
    qed
  qed
qed

lemma try_block_resolved:
  assumes "fst (try_block en d userId w) = None"
  shows "\<exists>x res. completed en d userId w x res"
proof -
  have "\<not> (\<exists>s e. raised en d userId w s e)"
    using assms raised_leaves_try_block by fastforce
  then show ?thesis
    using try_block_cases by blast
qed

text \<open>What a run without an error returns.\<close>

lemma completed_run:
  "completed en d userId w x res \<Longrightarrow>
   processDocumentWithAI en d userId w =
     (None, finalize_document d x,
      w\<lparr>documents := store_document (finalize_document d x) (documents w),
        transactions := transactions w @ [new_transaction en userId x (finalize_document d x)],
        anomalies := anomalies w @
          (case res of None \<Rightarrow> []
           | Some r \<Rightarrow> if r_isAnomaly r
                       then [new_anomaly en userId (new_transaction en userId x (finalize_document d x)) r]
                       else []),
        journal := journal w @
          [DocumentSaved (finalize_document d x),
           TransactionSaved (new_transaction en userId x (finalize_document d x)),
           ScorerCalled (new_transaction en userId x (finalize_document d x))
             (take 100 (filter (\<lambda>y. t_user y = userId)
                (transactions w @ [new_transaction en userId x (finalize_document d x)])))] @
          (case res of None \<Rightarrow> []
           | Some r \<Rightarrow> if r_isAnomaly r
                       then [AnomalySaved (new_anomaly en userId (new_transaction en userId x (finalize_document d x)) r)]
                       else [])\<rparr>)"
  by (induction rule: completed.induct)
     (simp_all add: pipe_defs store_defs Let_def del: take_append filter_append)

text \<open>What a completed run says about the collaborators.\<close>

lemma completed_faults:
  "completed en d userId w x res \<Longrightarrow>
   processDocument en (d_filePath d) (d_mimeType d) (aiProvider_of en) = Inr x \<and>
   document_save_fault en (finalize_document d x) = None \<and>
   transaction_save_fault en (new_transaction en userId x (finalize_document d x)) = None \<and>
   transaction_find_fault en userId = None"
  by (induction rule: completed.induct) simp_all

lemma completed_answer:
  "completed en d userId w x res \<Longrightarrow>
   detectAnomalies en (new_transaction en userId x (finalize_document d x))
     (take 100 (filter (\<lambda>y. t_user y = userId)
        (transactions w @ [new_transaction en userId x (finalize_document d x)]))) = Inr res \<and>
   (case res of None \<Rightarrow> True
    | Some r \<Rightarrow> r_isAnomaly r \<longrightarrow>
        anomaly_save_fault en (new_anomaly en userId (new_transaction en userId x (finalize_document d x)) r) = None)"
  by (induction rule: completed.induct) simp_all

text \<open>What the \<^verbatim>\<open>catch\<close> block does to the document object and to the store.\<close>

lemma find_store_document:
  "find (\<lambda>x. d_id x = d_id d) (store_document d ds) = Some d"
proof (induction ds)
  case Nil
  then show ?case by (simp add: store_document_def)
next
  case (Cons a ds)
  then show ?case by (auto simp: store_document_def split: if_splits)
qed

lemma try_block_keeps_id:
  "d_id (fst (snd (try_block en d userId w))) = d_id d"
  by (simp add: try_block_def Let_def finalize_document_def split: sum.splits prod.splits)

lemma catch_block_document:
  "fst (snd (catch_block en e d w)) = d\<lparr>d_status := Failed, d_extractedData := Some (ErrorPayload (message e))\<rparr>"
  by (simp add: catch_block_def Let_def split: sum.splits)

lemma catch_block_promise:
  "fst (catch_block en e d w) = document_save_fault en (d\<lparr>d_status := Failed, d_extractedData := Some (ErrorPayload (message e))\<rparr>)"
  by (simp add: catch_block_def document_save_def Let_def split: sum.splits option.splits)

lemma catch_block_stored:
  "document_save_fault en (d\<lparr>d_status := Failed, d_extractedData := Some (ErrorPayload (message e))\<rparr>) = None
   \<Longrightarrow> stored_document (snd (snd (catch_block en e d w))) (d_id d) = Some (d\<lparr>d_status := Failed, d_extractedData := Some (ErrorPayload (message e))\<rparr>)"
  using find_store_document [of "d\<lparr>d_status := Failed, d_extractedData := Some (ErrorPayload (message e))\<rparr>" "documents w"]
  by (simp add: catch_block_def document_save_def Let_def stored_document_def)

lemma pipeline_after_error:
  "fst (try_block en d userId w) = Some e \<Longrightarrow>
   processDocumentWithAI en d userId w =
     catch_block en e (fst (snd (try_block en d userId w))) (snd (snd (try_block en d userId w)))"
  by (cases "try_block en d userId w") (simp add: processDocumentWithAI_def)

section \<open>Failures of the pipeline\<close>

text \<open>What the store holds after a save of a document, and where a failing run stops.\<close>

lemma stored_after_save:
  "d_id d1 = i \<Longrightarrow> find (\<lambda>x. d_id x = i) (store_document d1 ds) = Some d1"
  using find_store_document [of d1 ds] by simp

lemma detached_call_resolves:
  "promise (detached_call en d userId w) = None \<and>
   final_document (detached_call en d userId w) = final_document (processDocumentWithAI en d userId w) \<and>
   final_world (detached_call en d userId w) = final_world (processDocumentWithAI en d userId w)"
  by (simp add: detached_call_def obs_defs split: prod.splits option.splits)

lemma failed_run_store:
  assumes "raised en d userId w s e"
  shows "(let run = processDocumentWithAI en d userId w; failed = final_document run in
           failed = (fst (snd (try_block en d userId w)))
                      \<lparr>d_status := Failed, d_extractedData := Some (ErrorPayload (message e))\<rparr> \<and>
           (document_save_fault en failed = None \<longrightarrow>
              stored_document (final_world run) (d_id d) = Some failed) \<and>
           (document_save_fault en failed \<noteq> None \<longrightarrow>
              (s \<in> {Extraction, DocumentFinalize} \<longrightarrow> documents (final_world run) = documents w) \<and>
              (s \<notin> {Extraction, DocumentFinalize} \<longrightarrow>
                 (\<exists>x. processDocument en (d_filePath d) (d_mimeType d) (aiProvider_of en) = Inr x \<and>
                      d_status (finalize_document d x) = Processed \<and>
                      stored_document (final_world run) (d_id d) = Some (finalize_document d x)))))"
  using assms
  by (induction rule: raised.induct)
     (simp_all add: pipe_defs store_defs obs_defs Let_def finalize_document_def
        stored_document_def stored_after_save split: sum.splits option.splits)

text \<open>
  Claim C1, as the code has it. Whatever stage of the background pipeline raises an error
  (extraction, the save of the finalized document, the save of the transaction, the
  history query, the scorer, the save of the anomaly), the single \<^verbatim>\<open>catch\<close> of the function
  receives it and sets status \<open>Failed\<close> and the error's message, as the extracted payload,
  on the document object. The save of line 283 is not guarded. When it goes through, the
  store holds the failed document and the promise of the function resolves. When it
  raises, the promise is rejected with the save's error and the record is as the last
  successful save left it: untouched, hence still in the status it was created with, when
  extraction or the save of the finalized document raised, and \<open>Processed\<close> otherwise. In
  both cases the call site of line 193 holds a promise that resolves: nothing is raised
  to the upload route.
\<close>

theorem pipeline_error_caught_at_boundary:
  assumes "raised en d userId w s e"
  shows "(let run = processDocumentWithAI en d userId w; failed = final_document run in
           d_status failed = Failed \<and>
           d_extractedData failed = Some (ErrorPayload (message e)) \<and>
           d_id failed = d_id d \<and>
           promise run = document_save_fault en failed \<and>
           (document_save_fault en failed = None \<longrightarrow>
              stored_document (final_world run) (d_id d) = Some failed) \<and>
           (document_save_fault en failed \<noteq> None \<longrightarrow>
              (s \<in> {Extraction, DocumentFinalize} \<longrightarrow> documents (final_world run) = documents w) \<and>
              (s \<notin> {Extraction, DocumentFinalize} \<longrightarrow>
                 (\<exists>x. processDocument en (d_filePath d) (d_mimeType d) (aiProvider_of en) = Inr x \<and>
                      d_status (finalize_document d x) = Processed \<and>
                      stored_document (final_world run) (d_id d) = Some (finalize_document d x)))) \<and>
           promise (detached_call en d userId w) = None \<and>
           final_world (detached_call en d userId w) = final_world run)"
proof -
  let ?tb = "try_block en d userId w"
  let ?d1 = "fst (snd ?tb)"
  let ?w1 = "snd (snd ?tb)"
  let ?d2 = "?d1\<lparr>d_status := Failed, d_extractedData := Some (ErrorPayload (message e))\<rparr>"
  have err: "fst ?tb = Some e"
    using assms by (rule raised_leaves_try_block)
  have run: "processDocumentWithAI en d userId w = catch_block en e ?d1 ?w1"
    using err by (rule pipeline_after_error)
  have doc: "final_document (processDocumentWithAI en d userId w) = ?d2"
    by (simp add: run final_document_def catch_block_document)
  have ident: "d_id ?d1 = d_id d"
    by (rule try_block_keeps_id)
  have prom: "promise (processDocumentWithAI en d userId w) = document_save_fault en ?d2"
    by (simp add: run promise_def catch_block_promise)
  note store = failed_run_store [OF assms, unfolded Let_def]
  note call = detached_call_resolves [of en d userId w]
  show ?thesis
    unfolding Let_def using doc prom ident store call by simp
qed

text \<open>
  The extraction provider times out on the example receipt and the document store
  refuses every write: the document object is failed, the record is still as it was
  created, and the promise of the function is rejected.
\<close>

theorem failed_object_unsaved_counterexample:
  "processDocument store_down_env (d_filePath receipt_doc) (d_mimeType receipt_doc)
     (aiProvider_of store_down_env) = Inl (Error ''provider timeout'') \<and>
   d_status (final_document (processDocumentWithAI store_down_env receipt_doc 1 uploaded_world)) = Failed \<and>
   documents (final_world (processDocumentWithAI store_down_env receipt_doc 1 uploaded_world))
     = [receipt_doc] \<and>
   d_status receipt_doc = Processing \<and>
   d_extractedData receipt_doc = None \<and>
   promise (processDocumentWithAI store_down_env receipt_doc 1 uploaded_world)
     = Some (Error ''store unavailable'')"
  by (simp add: pipe_defs store_defs obs_defs Let_def build_defs env_defs example_defs
        store_document_def)

text \<open>
  The extraction provider times out on the example receipt: with the store answering,
  the record ends as failed with the provider's message and the promise resolves; with
  the store refusing, the record is untouched; and the call site holds a resolved promise
  either way.
\<close>

theorem pipeline_error_caught_at_boundary_witness:
  "raised extraction_down_env receipt_doc 1 uploaded_world Extraction (Error ''provider timeout'') \<and>
   d_status (final_document (processDocumentWithAI extraction_down_env receipt_doc 1 uploaded_world)) = Failed \<and>
   d_extractedData (final_document (processDocumentWithAI extraction_down_env receipt_doc 1 uploaded_world))
     = Some (ErrorPayload ''provider timeout'') \<and>
   promise (processDocumentWithAI extraction_down_env receipt_doc 1 uploaded_world) = None \<and>
   stored_document (final_world (processDocumentWithAI extraction_down_env receipt_doc 1 uploaded_world)) 7
     = Some (final_document (processDocumentWithAI extraction_down_env receipt_doc 1 uploaded_world)) \<and>
   raised store_down_env receipt_doc 1 uploaded_world Extraction (Error ''provider timeout'') \<and>
   documents (final_world (processDocumentWithAI store_down_env receipt_doc 1 uploaded_world))
     = documents uploaded_world \<and>
   promise (detached_call store_down_env receipt_doc 1 uploaded_world) = None"
proof -
  have r: "raised extraction_down_env receipt_doc 1 uploaded_world Extraction (Error ''provider timeout'')"
    by (rule raised.extraction) (simp add: env_defs example_defs)
  have q: "raised store_down_env receipt_doc 1 uploaded_world Extraction (Error ''provider timeout'')"
    by (rule raised.extraction) (simp add: env_defs example_defs)
  have f: "document_save_fault extraction_down_env dd = None"
    "document_save_fault store_down_env dd \<noteq> None" for dd
    by (simp_all add: env_defs example_defs)
  have i: "d_id receipt_doc = 7"
    by (simp add: example_defs)
  note a = pipeline_error_caught_at_boundary [OF r, unfolded Let_def]
  note b = pipeline_error_caught_at_boundary [OF q, unfolded Let_def]
  have a1: "d_status (final_document (processDocumentWithAI extraction_down_env receipt_doc 1 uploaded_world)) = Failed"
    and a2: "d_extractedData (final_document (processDocumentWithAI extraction_down_env receipt_doc 1 uploaded_world))
       = Some (ErrorPayload ''provider timeout'')"
    and a3: "promise (processDocumentWithAI extraction_down_env receipt_doc 1 uploaded_world) = None"
    and a4: "stored_document (final_world (processDocumentWithAI extraction_down_env receipt_doc 1 uploaded_world)) 7
       = Some (final_document (processDocumentWithAI extraction_down_env receipt_doc 1 uploaded_world))"
    using a f(1) i by simp_all
  have b1: "documents (final_world (processDocumentWithAI store_down_env receipt_doc 1 uploaded_world))
       = documents uploaded_world"
    and b2: "promise (detached_call store_down_env receipt_doc 1 uploaded_world) = None"
    using b f(2) by simp_all
  show ?thesis
    by (intro conjI) (rule r q a1 a2 a3 a4 b1 b2)+
qed

text \<open>
  Claim C2, as the code has it. A failed run ends with the document object marked
  \<open>Failed\<close> and carrying a captured error that is not empty: the extracted payload is set
  and holds the error's message. The record in the store is that document when the save
  of the \<^verbatim>\<open>catch\<close> block goes through; when that save raises, the record is as the last
  successful save left it (untouched, or \<open>Processed\<close>). Whether a transaction exists
  for the document depends on the stage that raised: none is created when extraction, the
  save of the finalized document or the save of the transaction raises; when the history
  query, the scorer or the save of the anomaly raises, the transaction of lines 239 to 251
  is already in the store, linked to the document, and stays there.
\<close>

theorem failed_run_transaction_by_stage:
  assumes "raised en d userId w s e"
  shows "(let run = processDocumentWithAI en d userId w; failed = final_document run in
           d_status failed = Failed \<and>
           d_extractedData failed = Some (ErrorPayload (message e)) \<and>
           d_extractedData failed \<noteq> None \<and>
           (message e \<noteq> [] \<longrightarrow> d_extractedData failed \<noteq> Some (ErrorPayload [])) \<and>
           (document_save_fault en failed = None \<longrightarrow>
              stored_document (final_world run) (d_id d) = Some failed) \<and>
           (document_save_fault en failed \<noteq> None \<longrightarrow>
              (s \<in> {Extraction, DocumentFinalize} \<longrightarrow> documents (final_world run) = documents w) \<and>
              (s \<notin> {Extraction, DocumentFinalize} \<longrightarrow>
                 (\<exists>x. processDocument en (d_filePath d) (d_mimeType d) (aiProvider_of en) = Inr x \<and>
                      d_status (finalize_document d x) = Processed \<and>
                      stored_document (final_world run) (d_id d) = Some (finalize_document d x)))) \<and>
           (s \<in> {Extraction, DocumentFinalize, TransactionCreation} \<longrightarrow>
              transactions (final_world run) = transactions w) \<and>
           (s \<in> {HistoryFetch, Scoring, AnomalyPersistence} \<longrightarrow>
              (\<exists>t. transactions (final_world run) = transactions w @ [t] \<and>
                   t_document t = Some (d_id d) \<and> t_user t = userId)))"
proof -
  have txn: "(s \<in> {Extraction, DocumentFinalize, TransactionCreation} \<longrightarrow>
              transactions (final_world (processDocumentWithAI en d userId w)) = transactions w) \<and>
           (s \<in> {HistoryFetch, Scoring, AnomalyPersistence} \<longrightarrow>
              (\<exists>t. transactions (final_world (processDocumentWithAI en d userId w)) = transactions w @ [t] \<and>
                   t_document t = Some (d_id d) \<and> t_user t = userId))"
    using assms
    by (induction rule: raised.induct)
       (simp_all add: pipe_defs store_defs obs_defs Let_def build_defs
          split: sum.splits option.splits)
  note store = failed_run_store [OF assms, unfolded Let_def]
  have doc: "d_status (final_document (processDocumentWithAI en d userId w)) = Failed"
    "d_extractedData (final_document (processDocumentWithAI en d userId w))
       = Some (ErrorPayload (message e))"
    using store by simp_all
  show ?thesis
    unfolding Let_def using doc store txn by simp
qed

text \<open>
  The scorer is unavailable for the example receipt: the document ends as failed with the
  scorer's message, and the one transaction in the store is linked to it.
\<close>

theorem failed_document_with_transaction_counterexample:
  "d_status (final_document (processDocumentWithAI scorer_down_env receipt_doc 1 uploaded_world)) = Failed \<and>
   d_extractedData (final_document (processDocumentWithAI scorer_down_env receipt_doc 1 uploaded_world))
     = Some (ErrorPayload ''scorer unavailable'') \<and>
   map d_status (documents (final_world (processDocumentWithAI scorer_down_env receipt_doc 1 uploaded_world)))
     = [Failed] \<and>
   map t_document (transactions (final_world (processDocumentWithAI scorer_down_env receipt_doc 1 uploaded_world)))
     = [Some (d_id receipt_doc)]"
  by (simp add: pipe_defs store_defs obs_defs Let_def build_defs env_defs example_defs
        store_document_def)

text \<open>
  The same run with a store that refuses the failed document: the transaction is linked
  to a record that stays processed.
\<close>

theorem failed_run_transaction_by_stage_witness:
  "raised scorer_down_env receipt_doc 1 uploaded_world Scoring (Error ''scorer unavailable'') \<and>
   d_status (final_document (processDocumentWithAI scorer_down_env receipt_doc 1 uploaded_world)) = Failed \<and>
   stored_document (final_world (processDocumentWithAI scorer_down_env receipt_doc 1 uploaded_world)) 7
     = Some (final_document (processDocumentWithAI scorer_down_env receipt_doc 1 uploaded_world)) \<and>
   (\<exists>t. transactions (final_world (processDocumentWithAI scorer_down_env receipt_doc 1 uploaded_world))
          = transactions uploaded_world @ [t] \<and> t_document t = Some (d_id receipt_doc) \<and> t_user t = 1) \<and>
   raised failed_rejected_env receipt_doc 1 uploaded_world Scoring (Error ''scorer unavailable'') \<and>
   d_status (final_document (processDocumentWithAI failed_rejected_env receipt_doc 1 uploaded_world)) = Failed \<and>
   (\<exists>x. d_status (finalize_document receipt_doc x) = Processed \<and>
        stored_document (final_world (processDocumentWithAI failed_rejected_env receipt_doc 1 uploaded_world)) 7
          = Some (finalize_document receipt_doc x)) \<and>
   (\<exists>t. transactions (final_world (processDocumentWithAI failed_rejected_env receipt_doc 1 uploaded_world))
          = transactions uploaded_world @ [t] \<and> t_document t = Some (d_id receipt_doc) \<and> t_user t = 1)"
proof -
  have r: "raised scorer_down_env receipt_doc 1 uploaded_world Scoring (Error ''scorer unavailable'')"
    by (rule raised.scoring [OF _ _ refl]) (simp_all add: env_defs example_defs)
  have q: "raised failed_rejected_env receipt_doc 1 uploaded_world Scoring (Error ''scorer unavailable'')"
    by (rule raised.scoring [OF _ _ refl])
       (simp_all add: env_defs example_defs finalize_document_def)
  have i: "d_id receipt_doc = 7"
    by (simp add: example_defs)
  have f: "document_save_fault scorer_down_env dd = None" for dd
    by (simp add: env_defs example_defs)
  have g: "d_status dd = Failed \<Longrightarrow> document_save_fault failed_rejected_env dd \<noteq> None" for dd
    by (simp add: env_defs example_defs)
  have s: "Scoring \<in> {HistoryFetch, Scoring, AnomalyPersistence}"
    "Scoring \<notin> {Extraction, DocumentFinalize}"
    by simp_all
  note a = failed_run_transaction_by_stage [OF r, unfolded Let_def]
  note b = failed_run_transaction_by_stage [OF q, unfolded Let_def]
  have a1: "d_status (final_document (processDocumentWithAI scorer_down_env receipt_doc 1 uploaded_world)) = Failed"
    using a by blast
  have a2: "stored_document (final_world (processDocumentWithAI scorer_down_env receipt_doc 1 uploaded_world)) 7
     = Some (final_document (processDocumentWithAI scorer_down_env receipt_doc 1 uploaded_world))"
    using a f i by metis
  have a3: "\<exists>t. transactions (final_world (processDocumentWithAI scorer_down_env receipt_doc 1 uploaded_world))
          = transactions uploaded_world @ [t] \<and> t_document t = Some (d_id receipt_doc) \<and> t_user t = 1"
    using a s(1) by blast
  have b1: "d_status (final_document (processDocumentWithAI failed_rejected_env receipt_doc 1 uploaded_world)) = Failed"
    using b by blast
  have b2: "\<exists>x. d_status (finalize_document receipt_doc x) = Processed \<and>
        stored_document (final_world (processDocumentWithAI failed_rejected_env receipt_doc 1 uploaded_world)) 7
          = Some (finalize_document receipt_doc x)"
    using b g [OF b1] s(2) i by metis
  have b3: "\<exists>t. transactions (final_world (processDocumentWithAI failed_rejected_env receipt_doc 1 uploaded_world))
          = transactions uploaded_world @ [t] \<and> t_document t = Some (d_id receipt_doc) \<and> t_user t = 1"
    using b s(1) by blast
  show ?thesis
    by (intro conjI) (rule r q a1 a2 a3 b1 b2 b3)+
qed

section \<open>The status of a document\<close>

text \<open>
  Claim C3, as the code has it. In one run the status of the document is written to the
  store at most twice: \<open>Processed\<close> once extraction has succeeded and the save of the
  finalized document goes through, and \<open>Failed\<close> by the \<^verbatim>\<open>catch\<close> block when any stage
  raises and the save of the \<^verbatim>\<open>catch\<close> block goes through. The document object ends as
  \<open>Processed\<close> when no stage raised and as \<open>Failed\<close> when one did. Nothing is written
  after \<open>Failed\<close>; but \<open>Processed\<close> is followed by \<open>Failed\<close> whenever a stage after the
  save of the finalized document raises. A run without an error writes \<open>Processed\<close>
  alone.
\<close>

theorem status_written_at_most_twice:
  "(let run = processDocumentWithAI en d userId w;
        written = status_writes (d_id d) (new_events w (final_world run)) in
      (fst (try_block en d userId w) = None \<longrightarrow>
         written = [Processed] \<and> d_status (final_document run) = Processed) \<and>
      (\<forall>s e. raised en d userId w s e \<longrightarrow>
         d_status (final_document run) = Failed \<and>
         written =
           (if s \<in> {Extraction, DocumentFinalize} then [] else [Processed]) @
           (if document_save_fault en (final_document run) = None then [Failed] else [])))"
proof -
  have ok: "status_writes (d_id d) (new_events w (final_world (processDocumentWithAI en d userId w))) = [Processed]
      \<and> d_status (final_document (processDocumentWithAI en d userId w)) = Processed"
    if "fst (try_block en d userId w) = None"
  proof -
    from that obtain x res where "completed en d userId w x res"
      using try_block_resolved by blast
    then show ?thesis
      by (simp add: completed_run obs_defs finalize_document_def split: option.splits)
  qed
  have bad: "raised en d userId w s e \<Longrightarrow>
      d_status (final_document (processDocumentWithAI en d userId w)) = Failed \<and>
      status_writes (d_id d) (new_events w (final_world (processDocumentWithAI en d userId w))) =
           (if s \<in> {Extraction, DocumentFinalize} then [] else [Processed]) @
           (if document_save_fault en (final_document (processDocumentWithAI en d userId w)) = None
            then [Failed] else [])" for s e
    by (induction rule: raised.induct)
       (simp_all add: pipe_defs store_defs obs_defs Let_def build_defs
          split: sum.splits option.splits)
  show ?thesis
    unfolding Let_def using ok bad by blast
qed

text \<open>
  The transaction store refuses the write for the example receipt: the document is first
  stored as processed, then as failed.
\<close>

theorem processed_then_failed_counterexample:
  "status_writes (d_id receipt_doc)
     (new_events uploaded_world
        (final_world (processDocumentWithAI transaction_store_down_env receipt_doc 1 uploaded_world)))
     = [Processed, Failed]"
  by (simp add: pipe_defs store_defs obs_defs Let_def build_defs env_defs example_defs
        store_document_def)

text \<open>
  A run without an error writes \<open>Processed\<close> alone; a run whose finalized document the
  store rejects writes \<open>Failed\<close> alone.
\<close>

theorem status_written_at_most_twice_witness:
  "fst (try_block quiet_env receipt_doc 1 uploaded_world) = None \<and>
   status_writes (d_id receipt_doc)
     (new_events uploaded_world (final_world (processDocumentWithAI quiet_env receipt_doc 1 uploaded_world)))
     = [Processed] \<and>
   raised finalize_rejected_env receipt_doc 1 uploaded_world DocumentFinalize (Error ''validation failed'') \<and>
   d_status (final_document (processDocumentWithAI finalize_rejected_env receipt_doc 1 uploaded_world)) = Failed \<and>
   status_writes (d_id receipt_doc)
     (new_events uploaded_world
        (final_world (processDocumentWithAI finalize_rejected_env receipt_doc 1 uploaded_world)))
     = [Failed]"
proof -
  have c: "completed quiet_env receipt_doc 1 uploaded_world receipt None"
    by (rule completed.no_result [OF _ _ refl]) (simp_all add: example_defs)
  have ok: "fst (try_block quiet_env receipt_doc 1 uploaded_world) = None"
    using c by (rule completed_leaves_try_block)
  have r: "raised finalize_rejected_env receipt_doc 1 uploaded_world DocumentFinalize
             (Error ''validation failed'')"
    by (rule raised.document_finalize [where x = receipt])
       (simp_all add: env_defs example_defs finalize_document_def)
  have f: "document_save_fault finalize_rejected_env
             (final_document (processDocumentWithAI finalize_rejected_env receipt_doc 1 uploaded_world)) = None"
    using pipeline_after_error [OF raised_leaves_try_block [OF r]]
    by (simp add: final_document_def catch_block_document env_defs example_defs)
  show ?thesis
    using status_written_at_most_twice [of quiet_env receipt_doc 1 uploaded_world]
      status_written_at_most_twice [of finalize_rejected_env receipt_doc 1 uploaded_world]
      ok r f
    by (auto simp: Let_def)
qed

section \<open>Severity\<close>

text \<open>
  Claim C4. The severity given to an anomaly depends on the risk score and on nothing
  else: a score above 0.7 gives \<open>High\<close>, a score above 0.4 and up to 0.7 gives \<open>Medium\<close>,
  a score up to 0.4 gives \<open>Low\<close>; the boundary 0.7 is \<open>Medium\<close> and the boundary 0.4 is
  \<open>Low\<close>. The anomaly that line 261 builds carries that severity whatever the user, the
  transaction, the configuration and the other fields of the scorer's result are.
\<close>

theorem severity_threshold_ladder:
  "(riskScore > 7 / 10 \<longrightarrow> severity_of riskScore = High) \<and>
   (4 / 10 < riskScore \<and> riskScore \<le> 7 / 10 \<longrightarrow> severity_of riskScore = Medium) \<and>
   (riskScore \<le> 4 / 10 \<longrightarrow> severity_of riskScore = Low) \<and>
   severity_of (7 / 10) = Medium \<and> severity_of (4 / 10) = Low \<and>
   a_severity (new_anomaly en userId t res) = severity_of (r_riskScore res)"
  by (simp add: severity_of_def new_anomaly_def)

text \<open>The scores 0.75, 0.55 and 0.2 fall into the three buckets.\<close>

theorem severity_threshold_ladder_witness:
  "(3 / 4 :: rat) > 7 / 10 \<and> severity_of (3 / 4) = High \<and>
   (4 / 10 :: rat) < 11 / 20 \<and> (11 / 20 :: rat) \<le> 7 / 10 \<and> severity_of (11 / 20) = Medium \<and>
   (1 / 5 :: rat) \<le> 4 / 10 \<and> severity_of (1 / 5) = Low"
  using severity_threshold_ladder [of "3 / 4"] severity_threshold_ladder [of "11 / 20"]
    severity_threshold_ladder [of "1 / 5"]
  by simp

section \<open>The transaction of a document\<close>

text \<open>
  Claim C6, as the code has it. After a successful extraction the finalized document,
  with status \<open>Processed\<close>, is saved first and the transaction second. When both saves
  go through, exactly one transaction is written in the run, it is linked to the
  document, and the journal of the run starts with the save of the processed document
  followed by the save of the transaction. When either save raises, no transaction is
  written at all.
\<close>

theorem transaction_after_processed_document:
  assumes "processDocument en (d_filePath d) (d_mimeType d) (aiProvider_of en) = Inr x"
  shows "(let run = processDocumentWithAI en d userId w;
              evs = new_events w (final_world run);
              d1 = finalize_document d x;
              t = new_transaction en userId x d1 in
            if document_save_fault en d1 = None \<and> transaction_save_fault en t = None
            then transaction_writes evs = [t] \<and>
                 transactions (final_world run) = transactions w @ [t] \<and>
                 t_document t = Some (d_id d) \<and>
                 take 2 evs = [DocumentSaved d1, TransactionSaved t] \<and>
                 d_status d1 = Processed
            else transaction_writes evs = [] \<and>
                 transactions (final_world run) = transactions w)"
proof -
  consider (finished) res where "completed en d userId w x res"
    | (fail) s e where "raised en d userId w s e"
    using try_block_cases [of en d userId w] completed_faults assms by fastforce
  then show ?thesis
  proof cases
    case finished
    show ?thesis
      using completed_faults [OF finished]
      by (simp add: completed_run [OF finished] obs_defs build_defs Let_def split: option.splits)
  next
    case fail
    then show ?thesis
      using assms
      by (induction rule: raised.induct)
         (simp_all add: pipe_defs store_defs obs_defs Let_def build_defs
            split: sum.splits option.splits)
  qed
qed

text \<open>
  The provider reads the example receipt, but the store rejects the finalized document:
  the run ends without any transaction.
\<close>

theorem extraction_without_transaction_counterexample:
  "processDocument finalize_rejected_env (d_filePath receipt_doc) (d_mimeType receipt_doc)
     (aiProvider_of finalize_rejected_env) = Inr receipt \<and>
   transactions (final_world (processDocumentWithAI finalize_rejected_env receipt_doc 1 uploaded_world)) = [] \<and>
   d_status (final_document (processDocumentWithAI finalize_rejected_env receipt_doc 1 uploaded_world)) = Failed"
  by (simp add: pipe_defs store_defs obs_defs Let_def build_defs env_defs example_defs
        store_document_def)

text \<open>With every store answering, the example receipt yields its one transaction.\<close>

theorem transaction_after_processed_document_witness:
  "processDocument quiet_env (d_filePath receipt_doc) (d_mimeType receipt_doc)
     (aiProvider_of quiet_env) = Inr receipt \<and>
   transaction_writes
     (new_events uploaded_world (final_world (processDocumentWithAI quiet_env receipt_doc 1 uploaded_world)))
     = [receipt_transaction] \<and>
   take 2 (new_events uploaded_world (final_world (processDocumentWithAI quiet_env receipt_doc 1 uploaded_world)))
     = [DocumentSaved (finalize_document receipt_doc receipt), TransactionSaved receipt_transaction] \<and>
   d_status (finalize_document receipt_doc receipt) = Processed \<and>
   t_document receipt_transaction = Some 7"
proof -
  have x: "processDocument quiet_env (d_filePath receipt_doc) (d_mimeType receipt_doc)
     (aiProvider_of quiet_env) = Inr receipt"
    by (simp add: example_defs)
  have f: "document_save_fault quiet_env dd = None" "transaction_save_fault quiet_env tt = None" for dd tt
    by (simp_all add: example_defs)
  have i: "d_id receipt_doc = 7"
    by (simp add: example_defs)
  show ?thesis
    using transaction_after_processed_document [OF x, of 1 uploaded_world] x f i
    by (simp add: Let_def receipt_transaction_def)
qed

section \<open>Anomalies\<close>

text \<open>
  Claim C5, as the code has it. A run calls the scorer at most once. When it does not
  reach the scorer, or the scorer raises, or resolves to nothing, or resolves to a result
  with \<^verbatim>\<open>isAnomaly\<close> false, no anomaly is stored, whatever the risk score. When the scorer
  resolves to a result with \<^verbatim>\<open>isAnomaly\<close> true, one anomaly is constructed, with status
  \<^verbatim>\<open>new\<close>, for the transaction and the user of the run; it is stored when its save goes
  through, and when that save raises no anomaly is stored.
\<close>

theorem anomaly_saved_iff_flagged_and_stored:
  "(let run = processDocumentWithAI en d userId w;
        evs = new_events w (final_world run) in
      (scorer_calls evs = [] \<longrightarrow> anomalies (final_world run) = anomalies w) \<and>
      (\<forall>t ts. scorer_calls evs = [(t, ts)] \<longrightarrow>
         anomalies (final_world run) = anomalies w @
           (case detectAnomalies en t ts of
              Inl e \<Rightarrow> []
            | Inr None \<Rightarrow> []
            | Inr (Some res) \<Rightarrow>
                if r_isAnomaly res \<and> anomaly_save_fault en (new_anomaly en userId t res) = None
                then [new_anomaly en userId t res] else [])) \<and>
      length (scorer_calls evs) \<le> 1) \<and>
   a_status (new_anomaly en userId t res) = ''new'' \<and>
   a_transaction (new_anomaly en userId t res) = t_id t \<and>
   a_user (new_anomaly en userId t res) = userId"
proof -
  consider (finished) x res where "completed en d userId w x res"
    | (failure) s e where "raised en d userId w s e"
    using try_block_cases [of en d userId w] by blast
  then have "(let run = processDocumentWithAI en d userId w;
        evs = new_events w (final_world run) in
      (scorer_calls evs = [] \<longrightarrow> anomalies (final_world run) = anomalies w) \<and>
      (\<forall>t ts. scorer_calls evs = [(t, ts)] \<longrightarrow>
         anomalies (final_world run) = anomalies w @
           (case detectAnomalies en t ts of
              Inl e \<Rightarrow> []
            | Inr None \<Rightarrow> []
            | Inr (Some res) \<Rightarrow>
                if r_isAnomaly res \<and> anomaly_save_fault en (new_anomaly en userId t res) = None
                then [new_anomaly en userId t res] else [])) \<and>
      length (scorer_calls evs) \<le> 1)"
  proof cases
    case finished
    show ?thesis
      using completed_answer [OF finished]
      by (auto simp add: completed_run [OF finished] obs_defs Let_def
            simp del: take_append filter_append split: option.splits)
  next
    case failure
    then show ?thesis
      by (induction rule: raised.induct)
         (simp_all add: pipe_defs store_defs obs_defs Let_def del: take_append filter_append
            split: sum.splits option.splits)
  qed
  then show ?thesis
    by (simp add: new_anomaly_def)
qed

text \<open>
  The scorer flags the example transaction with risk 0.85, but the anomaly store refuses
  the write: no anomaly is stored.
\<close>

theorem flagged_but_not_stored_counterexample:
  "scorer_calls
     (new_events uploaded_world
        (final_world (processDocumentWithAI anomaly_store_down_env receipt_doc 1 uploaded_world)))
     = [(receipt_transaction, [receipt_transaction])] \<and>
   detectAnomalies anomaly_store_down_env receipt_transaction [receipt_transaction]
     = Inr (Some suspicious) \<and>
   r_isAnomaly suspicious \<and>
   anomalies (final_world (processDocumentWithAI anomaly_store_down_env receipt_doc 1 uploaded_world)) = []"
  by (simp add: pipe_defs store_defs obs_defs Let_def build_defs env_defs example_defs
        store_document_def)

text \<open>
  With the anomaly store answering, the flagged transaction gets its one anomaly, new and
  of high severity; a run that never reaches the scorer stores none.
\<close>

theorem anomaly_saved_iff_flagged_and_stored_witness:
  "scorer_calls
     (new_events uploaded_world (final_world (processDocumentWithAI alert_env receipt_doc 1 uploaded_world)))
     = [(receipt_transaction, [receipt_transaction])] \<and>
   anomalies (final_world (processDocumentWithAI alert_env receipt_doc 1 uploaded_world))
     = [new_anomaly alert_env 1 receipt_transaction suspicious] \<and>
   a_status (new_anomaly alert_env 1 receipt_transaction suspicious) = ''new'' \<and>
   a_severity (new_anomaly alert_env 1 receipt_transaction suspicious) = High \<and>
   scorer_calls
     (new_events uploaded_world
        (final_world (processDocumentWithAI extraction_down_env receipt_doc 1 uploaded_world))) = [] \<and>
   anomalies (final_world (processDocumentWithAI extraction_down_env receipt_doc 1 uploaded_world)) = []"
proof -
  have c: "scorer_calls
     (new_events uploaded_world (final_world (processDocumentWithAI alert_env receipt_doc 1 uploaded_world)))
     = [(receipt_transaction, [receipt_transaction])]"
    by (simp add: pipe_defs store_defs obs_defs Let_def build_defs env_defs example_defs
        store_document_def)
  have n: "scorer_calls
     (new_events uploaded_world
        (final_world (processDocumentWithAI extraction_down_env receipt_doc 1 uploaded_world))) = []"
    by (simp add: pipe_defs store_defs obs_defs Let_def build_defs env_defs example_defs
        store_document_def)
  have a: "detectAnomalies alert_env receipt_transaction [receipt_transaction] = Inr (Some suspicious)"
    "r_isAnomaly suspicious"
    "anomaly_save_fault alert_env (new_anomaly alert_env 1 receipt_transaction suspicious) = None"
    "anomalies uploaded_world = []"
    "a_severity (new_anomaly alert_env 1 receipt_transaction suspicious) = High"
    by (simp_all add: env_defs example_defs new_anomaly_def severity_of_def)
  show ?thesis
    using anomaly_saved_iff_flagged_and_stored
            [of alert_env receipt_doc 1 uploaded_world receipt_transaction suspicious]
          anomaly_saved_iff_flagged_and_stored
            [of extraction_down_env receipt_doc 1 uploaded_world receipt_transaction suspicious]
          c n a
    by (simp add: Let_def)
qed

section \<open>The type of a transaction\<close>

text \<open>
  Claim C8. The transactions in the store after a run are those before it followed by
  the ones the run wrote, and every transaction the run wrote comes from a successful
  extraction and has the type the provider supplied, or \<^verbatim>\<open>expense\<close> when the provider
  supplied none. (An empty string is falsy at line 245, so it counts as no type.)
\<close>

theorem transaction_type_defaults_to_expense:
  "(let run = processDocumentWithAI en d userId w;
        evs = new_events w (final_world run) in
      transactions (final_world run) = transactions w @ transaction_writes evs \<and>
      (\<forall>t \<in> set (transaction_writes evs).
         \<exists>x. processDocument en (d_filePath d) (d_mimeType d) (aiProvider_of en) = Inr x \<and>
             (case x_type x of
                None \<Rightarrow> t_type t = ''expense''
              | Some s \<Rightarrow> if s = [] then t_type t = ''expense'' else t_type t = s)))"
proof -
  consider (finished) x res where "completed en d userId w x res"
    | (failure) s e where "raised en d userId w s e"
    using try_block_cases [of en d userId w] by blast
  then show ?thesis
  proof cases
    case finished
    show ?thesis
      using completed_faults [OF finished]
      by (simp add: completed_run [OF finished] obs_defs Let_def new_transaction_def
            type_or_expense_def split: option.splits)
  next
    case failure
    then show ?thesis
      by (induction rule: raised.induct)
         (simp_all add: pipe_defs store_defs obs_defs Let_def new_transaction_def
            type_or_expense_def split: sum.splits option.splits)
  qed
qed

text \<open>
  The example receipt comes without a type and becomes an expense; a provider that says
  \<^verbatim>\<open>income\<close> is followed.
\<close>

theorem transaction_type_defaults_to_expense_witness:
  "transaction_writes
     (new_events uploaded_world (final_world (processDocumentWithAI quiet_env receipt_doc 1 uploaded_world)))
     = [receipt_transaction] \<and>
   x_type receipt = None \<and> t_type receipt_transaction = ''expense'' \<and>
   map t_type (transaction_writes
     (new_events uploaded_world (final_world (processDocumentWithAI income_env receipt_doc 1 uploaded_world))))
     = [''income'']"
proof -
  have q: "transaction_writes
     (new_events uploaded_world (final_world (processDocumentWithAI quiet_env receipt_doc 1 uploaded_world)))
     = [receipt_transaction]"
    by (simp add: pipe_defs store_defs obs_defs Let_def build_defs env_defs example_defs
        store_document_def)
  have x: "processDocument quiet_env (d_filePath receipt_doc) (d_mimeType receipt_doc)
              (aiProvider_of quiet_env) = Inr receipt" "x_type receipt = None"
    by (simp_all add: example_defs)
  have i: "map t_type (transaction_writes
     (new_events uploaded_world (final_world (processDocumentWithAI income_env receipt_doc 1 uploaded_world))))
     = [''income'']"
    by (simp add: pipe_defs store_defs obs_defs Let_def build_defs env_defs example_defs
        store_document_def)
  show ?thesis
    using transaction_type_defaults_to_expense [of quiet_env receipt_doc 1 uploaded_world]
      transaction_type_defaults_to_expense [of income_env receipt_doc 1 uploaded_world] q x i
    by (simp add: Let_def)
qed

section \<open>The history window\<close>

text \<open>
  What a run hands to the scorer: the transaction it has just saved, and the first hundred
  of the user's transactions as the store lists them after that save.
\<close>

lemma scorer_call_of_run:
  assumes "(t, ts) \<in> set (scorer_calls
             (new_events w (final_world (processDocumentWithAI en d userId w))))"
  shows "ts = take 100 (filter (\<lambda>y. t_user y = userId) (transactions w @ [t])) \<and>
         t_user t = userId \<and>
         transactions (final_world (processDocumentWithAI en d userId w)) = transactions w @ [t] \<and>
         (\<exists>d1. take 3 (new_events w (final_world (processDocumentWithAI en d userId w)))
                  = [DocumentSaved d1, TransactionSaved t, ScorerCalled t ts])"
proof -
  consider (finished) x res where "completed en d userId w x res"
    | (failure) s e where "raised en d userId w s e"
    using try_block_cases [of en d userId w] by blast
  then show ?thesis
  proof cases
    case finished
    show ?thesis
      using assms
      by (auto simp add: completed_run [OF finished] obs_defs Let_def new_transaction_def
            simp del: take_append filter_append split: option.splits if_splits)
  next
    case failure
    then show ?thesis
      using assms
      by (induction rule: raised.induct)
         (auto simp add: pipe_defs store_defs obs_defs Let_def new_transaction_def
            simp del: take_append filter_append split: sum.splits option.splits)
  qed
qed

text \<open>
  Claim C7, as the code has it. The history window handed to the scorer holds at most 100
  transactions, each of them of the user of the candidate transaction, and it is exactly
  the first 100 of the user's transactions in the order in which the store lists them
  (the query of line 254 asks for no sort), all of them when the user has fewer: the
  first 100, not the most recent 100.
\<close>

theorem history_window_bounded_and_scoped:
  "(let run = processDocumentWithAI en d userId w;
        evs = new_events w (final_world run) in
      \<forall>(t, ts) \<in> set (scorer_calls evs).
        length ts \<le> 100 \<and>
        (\<forall>y \<in> set ts. t_user y = userId) \<and>
        t_user t = userId \<and>
        ts = take 100 (filter (\<lambda>y. t_user y = userId) (transactions (final_world run))) \<and>
        length ts = min (length (filter (\<lambda>y. t_user y = userId) (transactions (final_world run)))) 100)"
proof -
  have "length ts \<le> 100 \<and>
        (\<forall>y \<in> set ts. t_user y = userId) \<and>
        t_user t = userId \<and>
        ts = take 100 (filter (\<lambda>y. t_user y = userId)
               (transactions (final_world (processDocumentWithAI en d userId w)))) \<and>
        length ts = min (length (filter (\<lambda>y. t_user y = userId)
               (transactions (final_world (processDocumentWithAI en d userId w))))) 100"
    if call: "(t, ts) \<in> set (scorer_calls
             (new_events w (final_world (processDocumentWithAI en d userId w))))" for t ts
  proof -
    let ?own = "filter (\<lambda>y. t_user y = userId) (transactions w @ [t])"
    from scorer_call_of_run [OF call]
    have ts: "ts = take 100 ?own" and u: "t_user t = userId"
      and tr: "transactions (final_world (processDocumentWithAI en d userId w)) = transactions w @ [t]"
      by blast+
    have "length ts \<le> 100"
      by (simp add: ts del: take_append filter_append)
    moreover have "\<forall>y \<in> set ts. t_user y = userId"
    proof
      fix y assume "y \<in> set ts"
      then have "y \<in> set ?own" unfolding ts by (rule in_set_takeD)
      then show "t_user y = userId" by (simp only: set_filter mem_Collect_eq)
    qed
    moreover have "length ts = min (length ?own) 100"
      unfolding ts by (rule length_take)
    moreover have "ts = take 100 (filter (\<lambda>y. t_user y = userId)
               (transactions (final_world (processDocumentWithAI en d userId w))))"
      unfolding tr by (rule ts)
    ultimately show ?thesis
      unfolding tr using u by blast
  qed
  then show ?thesis
    unfolding Let_def by blast
qed

text \<open>The store of a user with 101 earlier transactions, and the run on it.\<close>

lemma old_transactions_own:
  "filter (\<lambda>y. t_user y = 1) (map old_transaction xs) = map old_transaction xs"
  by (induction xs) (simp_all add: old_transaction_def)

lemma busy_history:
  "filter (\<lambda>y. t_user y = 1) (map old_transaction [0..<101] @ [receipt_transaction])
     = map old_transaction [0..<101] @ [receipt_transaction]"
proof -
  have "t_user receipt_transaction = 1"
    by (simp add: example_defs new_transaction_def)
  then show ?thesis
    by (simp add: old_transactions_own del: upt_rec_numeral One_nat_def)
qed

lemma busy_run:
  "completed quiet_env receipt_doc 1 busy_world receipt None"
  by (rule completed.no_result [OF _ _ refl]) (simp_all add: example_defs)

lemma busy_window:
  "scorer_calls
     (new_events busy_world (final_world (processDocumentWithAI quiet_env receipt_doc 1 busy_world)))
     = [(receipt_transaction, map old_transaction [0..<100])]"
proof -
  have t: "transactions busy_world = map old_transaction [0..<101]"
    by (simp add: busy_world_def)
  have r: "new_transaction quiet_env 1 receipt (finalize_document receipt_doc receipt) = receipt_transaction"
    by (simp add: receipt_transaction_def)
  have k: "take 100 (map old_transaction [0..<101] @ [receipt_transaction]) = map old_transaction [0..<100]"
    by (simp add: take_map del: upt_rec_numeral)
  show ?thesis
    by (simp add: completed_run [OF busy_run] obs_defs r t busy_history k
          del: take_append filter_append upt_rec_numeral One_nat_def)
qed

text \<open>
  For that user the window is the transactions 0 to 99: it holds the oldest one and
  leaves out transaction 100, which is newer, and the candidate. The most recent 100 are
  the transactions 1 to 100, or 2 to 100 and the candidate when the candidate counts.
\<close>

theorem window_not_most_recent_counterexample:
  "scorer_calls
     (new_events busy_world (final_world (processDocumentWithAI quiet_env receipt_doc 1 busy_world)))
     = [(receipt_transaction, map old_transaction [0..<100])] \<and>
   most_recent_of_user 100 1 (transactions busy_world) = map old_transaction [1..<101] \<and>
   most_recent_of_user 100 1
     (transactions (final_world (processDocumentWithAI quiet_env receipt_doc 1 busy_world)))
     = map old_transaction [2..<101] @ [receipt_transaction] \<and>
   old_transaction 0 \<in> set (map old_transaction [0..<100]) \<and>
   old_transaction 100 \<notin> set (map old_transaction [0..<100]) \<and>
   receipt_transaction \<notin> set (map old_transaction [0..<100]) \<and>
   t_date (old_transaction 0) < t_date (old_transaction 100)"
proof -
  have t: "transactions busy_world = map old_transaction [0..<101]"
    by (simp add: busy_world_def)
  have r: "new_transaction quiet_env 1 receipt (finalize_document receipt_doc receipt) = receipt_transaction"
    by (simp add: receipt_transaction_def)
  have d1: "drop (101 - 100) (map old_transaction [0..<101]) = map old_transaction [1..<101]"
    by (simp add: drop_map del: upt_rec_numeral)
  have d2: "drop (102 - 100) (map old_transaction [0..<101] @ [receipt_transaction])
              = map old_transaction [2..<101] @ [receipt_transaction]"
    by (simp add: drop_map numeral_2_eq_2 del: upt_rec_numeral)
  have m1: "most_recent_of_user 100 1 (transactions busy_world) = map old_transaction [1..<101]"
    using d1
    by (simp add: most_recent_of_user_def t old_transactions_own Let_def
          del: upt_rec_numeral One_nat_def)
  have m2: "most_recent_of_user 100 1
     (transactions (final_world (processDocumentWithAI quiet_env receipt_doc 1 busy_world)))
     = map old_transaction [2..<101] @ [receipt_transaction]"
    using d2
    by (simp add: completed_run [OF busy_run] obs_defs r t busy_history most_recent_of_user_def
          Let_def del: take_append filter_append drop_append upt_rec_numeral One_nat_def)
  have e: "old_transaction 0 \<in> set (map old_transaction [0..<100])"
    "old_transaction 100 \<notin> set (map old_transaction [0..<100])"
    "receipt_transaction \<notin> set (map old_transaction [0..<100])"
    "t_date (old_transaction 0) < t_date (old_transaction 100)"
    by (auto simp add: old_transaction_def example_defs new_transaction_def
          simp del: upt_rec_numeral)
  show ?thesis
    using busy_window m1 m2 e by simp
qed

theorem history_window_bounded_and_scoped_witness:
  "scorer_calls
     (new_events busy_world (final_world (processDocumentWithAI quiet_env receipt_doc 1 busy_world)))
     = [(receipt_transaction, map old_transaction [0..<100])] \<and>
   length (map old_transaction [0..<100]) \<le> 100 \<and>
   list_all (\<lambda>y. t_user y = 1) (map old_transaction [0..<100]) \<and>
   t_user receipt_transaction = 1 \<and>
   map old_transaction [0..<100] =
     take 100 (filter (\<lambda>y. t_user y = 1)
       (transactions (final_world (processDocumentWithAI quiet_env receipt_doc 1 busy_world))))"
proof -
  have m: "(receipt_transaction, map old_transaction [0..<100]) \<in> set (scorer_calls
     (new_events busy_world (final_world (processDocumentWithAI quiet_env receipt_doc 1 busy_world))))"
    unfolding busy_window by simp
  note th = history_window_bounded_and_scoped [of quiet_env receipt_doc 1 busy_world, unfolded Let_def]
  have "case (receipt_transaction, map old_transaction [0..<100]) of
          (t, ts) \<Rightarrow>
            length ts \<le> 100 \<and>
            (\<forall>y \<in> set ts. t_user y = 1) \<and>
            t_user t = 1 \<and>
            ts = take 100 (filter (\<lambda>y. t_user y = 1)
              (transactions (final_world (processDocumentWithAI quiet_env receipt_doc 1 busy_world)))) \<and>
            length ts = min (length (filter (\<lambda>y. t_user y = 1)
              (transactions (final_world (processDocumentWithAI quiet_env receipt_doc 1 busy_world))))) 100"
    using th m by (rule bspec)
  then have "length (map old_transaction [0..<100]) \<le> 100 \<and>
        (\<forall>y \<in> set (map old_transaction [0..<100]). t_user y = 1) \<and>
        t_user receipt_transaction = 1 \<and>
        map old_transaction [0..<100] =
          take 100 (filter (\<lambda>y. t_user y = 1)
            (transactions (final_world (processDocumentWithAI quiet_env receipt_doc 1 busy_world))))"
    unfolding prod.case by (elim conjE) (intro conjI, assumption+)
  note c = this
  have l: "length (map old_transaction [0..<100]) \<le> 100"
    using c by (elim conjE)
  have a: "list_all (\<lambda>y. t_user y = 1) (map old_transaction [0..<100])"
    unfolding list_all_iff using c by (elim conjE)
  have u: "t_user receipt_transaction = 1"
    using c by (elim conjE)
  have p: "map old_transaction [0..<100] =
          take 100 (filter (\<lambda>y. t_user y = 1)
            (transactions (final_world (processDocumentWithAI quiet_env receipt_doc 1 busy_world))))"
    using c by (elim conjE)
  show ?thesis
    by (intro conjI) (rule busy_window l a u p)+
qed

text \<open>
  Claim C10. Whenever a run calls the scorer, the journal of the run starts with the save
  of the document, the save of the candidate transaction, and the call of the scorer, in
  that order; the window is the first 100 entries of the store's transactions, the
  candidate included, filtered by the user id alone; so the candidate itself is in the
  window whenever the user had fewer than 100 transactions before.
\<close>

theorem history_query_after_transaction_save:
  "(let run = processDocumentWithAI en d userId w;
        evs = new_events w (final_world run) in
      \<forall>t ts. (t, ts) \<in> set (scorer_calls evs) \<longrightarrow>
        (\<exists>d1. take 3 evs = [DocumentSaved d1, TransactionSaved t, ScorerCalled t ts]) \<and>
        ts = take 100 (filter (\<lambda>y. t_user y = userId) (transactions w @ [t])) \<and>
        (length (filter (\<lambda>y. t_user y = userId) (transactions w)) < 100 \<longrightarrow> t \<in> set ts))"
proof -
  have "(\<exists>d1. take 3 (new_events w (final_world (processDocumentWithAI en d userId w)))
                 = [DocumentSaved d1, TransactionSaved t, ScorerCalled t ts]) \<and>
        ts = take 100 (filter (\<lambda>y. t_user y = userId) (transactions w @ [t])) \<and>
        (length (filter (\<lambda>y. t_user y = userId) (transactions w)) < 100 \<longrightarrow> t \<in> set ts)"
    if call: "(t, ts) \<in> set (scorer_calls
             (new_events w (final_world (processDocumentWithAI en d userId w))))" for t ts
  proof -
    from scorer_call_of_run [OF call]
    have ts: "ts = take 100 (filter (\<lambda>y. t_user y = userId) (transactions w @ [t]))"
      and u: "t_user t = userId"
      and ev: "\<exists>d1. take 3 (new_events w (final_world (processDocumentWithAI en d userId w)))
                 = [DocumentSaved d1, TransactionSaved t, ScorerCalled t ts]"
      by blast+
    have "t \<in> set ts" if "length (filter (\<lambda>y. t_user y = userId) (transactions w)) < 100"
      using that u by (simp add: ts)
    then show ?thesis
      using ts ev by blast
  qed
  then show ?thesis
    unfolding Let_def by blast
qed

text \<open>On the first upload of a user the window is the candidate alone.\<close>

theorem history_query_after_transaction_save_witness:
  "scorer_calls
     (new_events uploaded_world (final_world (processDocumentWithAI quiet_env receipt_doc 1 uploaded_world)))
     = [(receipt_transaction, [receipt_transaction])] \<and>
   length (filter (\<lambda>y. t_user y = 1) (transactions uploaded_world)) < 100 \<and>
   receipt_transaction \<in> set [receipt_transaction] \<and>
   take 3 (new_events uploaded_world (final_world (processDocumentWithAI quiet_env receipt_doc 1 uploaded_world)))
     = [DocumentSaved (finalize_document receipt_doc receipt), TransactionSaved receipt_transaction,
        ScorerCalled receipt_transaction [receipt_transaction]]"
proof -
  have q: "completed quiet_env receipt_doc 1 uploaded_world receipt None"
    by (rule completed.no_result [OF _ _ refl]) (simp_all add: example_defs)
  have r: "new_transaction quiet_env 1 receipt (finalize_document receipt_doc receipt) = receipt_transaction"
    by (simp add: receipt_transaction_def)
  have t: "transactions uploaded_world = []"
    by (simp add: uploaded_world_def)
  have u: "t_user receipt_transaction = 1"
    by (simp add: receipt_transaction_def new_transaction_def)
  have c: "scorer_calls
     (new_events uploaded_world (final_world (processDocumentWithAI quiet_env receipt_doc 1 uploaded_world)))
     = [(receipt_transaction, [receipt_transaction])]"
    by (simp add: completed_run [OF q] obs_defs r t u del: One_nat_def)
  have m: "(receipt_transaction, [receipt_transaction]) \<in> set (scorer_calls
     (new_events uploaded_world (final_world (processDocumentWithAI quiet_env receipt_doc 1 uploaded_world))))"
    unfolding c by simp
  have h: "length (filter (\<lambda>y. t_user y = 1) (transactions uploaded_world)) < 100"
    unfolding t by simp
  from history_query_after_transaction_save [of quiet_env receipt_doc 1 uploaded_world] m
  have "(\<exists>d1. take 3 (new_events uploaded_world
                  (final_world (processDocumentWithAI quiet_env receipt_doc 1 uploaded_world)))
            = [DocumentSaved d1, TransactionSaved receipt_transaction,
               ScorerCalled receipt_transaction [receipt_transaction]]) \<and>
        (length (filter (\<lambda>y. t_user y = 1) (transactions uploaded_world)) < 100 \<longrightarrow>
           receipt_transaction \<in> set [receipt_transaction])"
    unfolding Let_def by blast
  with h have i: "receipt_transaction \<in> set [receipt_transaction]"
    by blast
  have e: "take 3 (new_events uploaded_world (final_world (processDocumentWithAI quiet_env receipt_doc 1 uploaded_world)))
     = [DocumentSaved (finalize_document receipt_doc receipt), TransactionSaved receipt_transaction,
        ScorerCalled receipt_transaction [receipt_transaction]]"
    by (simp add: completed_run [OF q] obs_defs r t u del: One_nat_def)
  show ?thesis
    by (intro conjI) (rule c h i e)+
qed

section \<open>Deleting a document\<close>

lemma find_filter_other:
  "find (\<lambda>x. d_id x = i) (filter (\<lambda>x. d_id x \<noteq> i) ds) = None"
  by (induction ds) simp_all

lemma destroy_blob_documents:
  "documents (destroy_blob en d w) = documents w"
  by (simp add: destroy_blob_def split: option.splits)

lemma delete_handler_found:
  assumes "document_findOne en ident userId w = Inr (Some d)"
  shows "delete_handler en ident userId w =
          (case document_deleteOne_fault en d of
             Some e \<Rightarrow>
               (\<lparr>res_status = 500, res_success = False, res_message = message e,
                 res_data = None\<rparr>, destroy_blob en d w)
           | None \<Rightarrow>
               (\<lparr>res_status = 200, res_success = True,
                 res_message = ''Document deleted successfully'', res_data = None\<rparr>,
                (destroy_blob en d w)
                  \<lparr>documents := filter (\<lambda>x. d_id x \<noteq> d_id d) (documents w),
                   journal := journal (destroy_blob en d w) @ [DocumentDeleted (d_id d)]\<rparr>))"
  using assms
  by (simp add: delete_handler_def document_deleteOne_def Let_def destroy_blob_documents
        split: option.splits)

lemma document_findOne_ident:
  "document_findOne en ident userId w = Inr (Some d) \<Longrightarrow> d_id d = ident \<and> d_user d = userId \<and> d \<in> set (documents w)"
  by (auto simp add: document_findOne_def find_Some_iff split: option.splits)

text \<open>
  Claim C9. What the delete route answers and what it leaves in the document store are
  the same whether the call of \<^verbatim>\<open>cloudinary.uploader.destroy\<close> raises or not. In
  particular, when the user's document is found, the blob deletion raises and the record
  deletion itself goes through, the route answers 200 with success and the record is
  gone from the store; the blob is what stays behind.
\<close>

theorem blob_failure_does_not_block_deletion:
  "fst (delete_handler en ident userId w)
     = fst (delete_handler (en\<lparr>destroy_fault := (\<lambda>i k. None)\<rparr>) ident userId w) \<and>
   documents (snd (delete_handler en ident userId w))
     = documents (snd (delete_handler (en\<lparr>destroy_fault := (\<lambda>i k. None)\<rparr>) ident userId w)) \<and>
   (\<forall>d cloudinaryError.
      document_findOne en ident userId w = Inr (Some d) \<and>
      d_fileName d \<noteq> [] \<and>
      destroy_fault en (d_fileName d) (resourceType_of (d_mimeType d)) = Some cloudinaryError \<and>
      document_deleteOne_fault en d = None \<longrightarrow>
      delete_handler en ident userId w =
        (\<lparr>res_status = 200, res_success = True,
          res_message = ''Document deleted successfully'', res_data = None\<rparr>,
         w\<lparr>documents := filter (\<lambda>x. d_id x \<noteq> ident) (documents w),
           journal := journal w @ [DocumentDeleted ident]\<rparr>) \<and>
      stored_document (snd (delete_handler en ident userId w)) ident = None)"
proof -
  let ?quiet = "en\<lparr>destroy_fault := (\<lambda>i k. None)\<rparr>"
  have same: "fst (delete_handler en ident userId w) = fst (delete_handler ?quiet ident userId w) \<and>
      documents (snd (delete_handler en ident userId w))
        = documents (snd (delete_handler ?quiet ident userId w))"
    by (simp add: delete_handler_def document_findOne_def document_deleteOne_def Let_def
          destroy_blob_documents split: option.splits)
  have removed: "delete_handler en ident userId w =
        (\<lparr>res_status = 200, res_success = True,
          res_message = ''Document deleted successfully'', res_data = None\<rparr>,
         w\<lparr>documents := filter (\<lambda>x. d_id x \<noteq> ident) (documents w),
           journal := journal w @ [DocumentDeleted ident]\<rparr>) \<and>
      stored_document (snd (delete_handler en ident userId w)) ident = None"
    if f: "document_findOne en ident userId w = Inr (Some d)"
      and n: "d_fileName d \<noteq> []"
      and b: "destroy_fault en (d_fileName d) (resourceType_of (d_mimeType d)) = Some cloudinaryError"
      and k: "document_deleteOne_fault en d = None" for d cloudinaryError
  proof -
    have i: "d_id d = ident"
      using document_findOne_ident [OF f] by simp
    have w: "destroy_blob en d w = w"
      using n b by (simp add: destroy_blob_def)
    show ?thesis
      by (simp add: delete_handler_found [OF f] k w i stored_document_def find_filter_other)
  qed
  show ?thesis
    using same removed by blast
qed

text \<open>Cloudinary is unavailable when user 1 deletes document 7: the record goes, the blob stays.\<close>

theorem blob_failure_does_not_block_deletion_witness:
  "document_findOne blob_down_env 7 1 uploaded_world = Inr (Some receipt_doc) \<and>
   d_fileName receipt_doc = ''financial_docs/r7'' \<and>
   destroy_fault blob_down_env (d_fileName receipt_doc) (resourceType_of (d_mimeType receipt_doc))
     = Some (Error ''cloudinary unavailable'') \<and>
   res_status (fst (delete_handler blob_down_env 7 1 uploaded_world)) = 200 \<and>
   res_success (fst (delete_handler blob_down_env 7 1 uploaded_world)) \<and>
   documents (snd (delete_handler blob_down_env 7 1 uploaded_world)) = [] \<and>
   blobs (snd (delete_handler blob_down_env 7 1 uploaded_world)) = [''financial_docs/r7''] \<and>
   stored_document (snd (delete_handler blob_down_env 7 1 uploaded_world)) 7 = None"
proof -
  have f: "document_findOne blob_down_env 7 1 uploaded_world = Inr (Some receipt_doc)"
    by (simp add: document_findOne_def env_defs example_defs)
  have n: "d_fileName receipt_doc = ''financial_docs/r7''"
    by (simp add: example_defs)
  have b: "destroy_fault blob_down_env (d_fileName receipt_doc) (resourceType_of (d_mimeType receipt_doc))
     = Some (Error ''cloudinary unavailable'')"
    by (simp add: env_defs example_defs)
  have k: "document_deleteOne_fault blob_down_env receipt_doc = None"
    by (simp add: env_defs example_defs)
  have s: "filter (\<lambda>x. d_id x \<noteq> 7) (documents uploaded_world) = []"
    "blobs uploaded_world = [''financial_docs/r7'']"
    by (simp_all add: example_defs)
  have d: "delete_handler blob_down_env 7 1 uploaded_world =
        (\<lparr>res_status = 200, res_success = True,
          res_message = ''Document deleted successfully'', res_data = None\<rparr>,
         uploaded_world\<lparr>documents := filter (\<lambda>x. d_id x \<noteq> 7) (documents uploaded_world),
           journal := journal uploaded_world @ [DocumentDeleted 7]\<rparr>) \<and>
      stored_document (snd (delete_handler blob_down_env 7 1 uploaded_world)) 7 = None"
    using blob_failure_does_not_block_deletion [of blob_down_env 7 1 uploaded_world] f n b k
    by fastforce
  have st: "stored_document (snd (delete_handler blob_down_env 7 1 uploaded_world)) 7 = None"
    using d by (rule conjunct2)
  have r: "res_status (fst (delete_handler blob_down_env 7 1 uploaded_world)) = 200"
    "res_success (fst (delete_handler blob_down_env 7 1 uploaded_world))"
    "documents (snd (delete_handler blob_down_env 7 1 uploaded_world)) = []"
    "blobs (snd (delete_handler blob_down_env 7 1 uploaded_world)) = [''financial_docs/r7'']"
    unfolding d [THEN conjunct1] by (simp_all add: s)
  show ?thesis
    by (intro conjI) (rule f n b r st)+
qed

end
